theory Spec2Isabelle
  imports Main "HOL-Library.Char_ord" "HOL-Library.List_Lexorder"
begin

section \<open>The GLib client-wrapper generator (tools/glib-client-gen.py)\<close>

text \<open>
  The generator reads a D-Bus introspection document that was parsed by
  \<^verbatim>\<open>xml.dom.minidom\<close>, walks its \<^verbatim>\<open>node\<close> elements and appends lines of C text to
  two buffers, the header and the body, which it finally writes to
  \<^verbatim>\<open>basename.h\<close> and \<^verbatim>\<open>basename.c\<close>.

  Strings are lists of characters. The three helpers the program imports from
  \<^verbatim>\<open>libglibcodegen\<close> (\<^verbatim>\<open>type_to_gtype\<close>, \<^verbatim>\<open>camelcase_to_lower\<close>, \<^verbatim>\<open>cmp_by_name\<close>) are
  parameters of the model: every function below that calls one of them takes it as
  an argument, called \<open>ttg\<close>, \<open>cl\<close> and \<open>cmp\<close>.
\<close>

subsection \<open>The part of the DOM that the generator uses\<close>

text \<open>
  An element has a tag name, attributes and child elements. Text and comment nodes
  are left out: the generator never reads them. The document itself is an element
  whose only child is the root element, as \<^verbatim>\<open>getElementsByTagName\<close> of minidom
  treats both alike.
\<close>

datatype element =
  Element (tagName: string) (attributes: "(string \<times> string) list") (childNodes: "element list")

text \<open>\<^verbatim>\<open>getAttribute\<close> returns the empty string for an attribute that is absent.\<close>

definition getAttribute :: "element \<Rightarrow> string \<Rightarrow> string" where
  "getAttribute e attname = (case map_of (attributes e) attname of Some v \<Rightarrow> v | None \<Rightarrow> '''')"

text \<open>
  \<^verbatim>\<open>getElementsByTagName\<close>: all descendants with the given tag name (or all, for
  \<^verbatim>\<open>*\<close>), in document order; the element itself is not among them.
\<close>

fun getElementsByTagName :: "element \<Rightarrow> string \<Rightarrow> element list" where
  "getElementsByTagName (Element t a cs) name =
     concat (map (\<lambda>node. (if name = ''*'' \<or> tagName node = name then [node] else [])
                          @ getElementsByTagName node name) cs)"

subsection \<open>String operations of Python\<close>

definition char_lower :: "char \<Rightarrow> char" where
  "char_lower c =
     (case map_of (zip ''ABCDEFGHIJKLMNOPQRSTUVWXYZ'' ''abcdefghijklmnopqrstuvwxyz'') c of
        Some d \<Rightarrow> d | None \<Rightarrow> c)"

definition char_upper :: "char \<Rightarrow> char" where
  "char_upper c =
     (case map_of (zip ''abcdefghijklmnopqrstuvwxyz'' ''ABCDEFGHIJKLMNOPQRSTUVWXYZ'') c of
        Some d \<Rightarrow> d | None \<Rightarrow> c)"

text \<open>
  \<^verbatim>\<open>s.lower()\<close> and \<^verbatim>\<open>s.upper()\<close>, on the ASCII letters. Python also maps the
  letters outside ASCII in the strings that minidom returns; here they are left as
  they are, so the model is that of the generator on ASCII names.
\<close>

definition lower :: "string \<Rightarrow> string" where
  "lower s = map char_lower s"

definition upper :: "string \<Rightarrow> string" where
  "upper s = map char_upper s"

text \<open>\<^verbatim>\<open>s.replace(c, '')\<close> for a single character \<open>c\<close>.\<close>

definition remove_char :: "char \<Rightarrow> string \<Rightarrow> string" where
  "remove_char c s = filter (\<lambda>x. x \<noteq> c) s"

text \<open>\<^verbatim>\<open>'%u' % n\<close>: the decimal digits of a natural number.\<close>

definition digit :: "nat \<Rightarrow> char" where
  "digit d = ''0123456789'' ! d"

function str_nat :: "nat \<Rightarrow> string" where
  "str_nat n = (if n < 10 then [digit n] else str_nat (n div 10) @ [digit (n mod 10)])"
  by pat_completeness auto
termination
  by (relation "measure (\<lambda>n. n)") auto

declare str_nat.simps [simp del]

text \<open>\<^verbatim>\<open>sep.join(lines)\<close>.\<close>

fun join :: "string \<Rightarrow> string list \<Rightarrow> string" where
  "join sep [] = ''''"
| "join sep [x] = x"
| "join sep (x # y # ys) = x @ sep @ join sep (y # ys)"

subsection \<open>Errors, type information and the generator's state\<close>

text \<open>
  An exception ends the run. \<open>AssertionError\<close> is the \<^verbatim>\<open>assert\<close> of
  \<^verbatim>\<open>do_interface\<close>; \<open>Exception\<close> is whatever an imported helper raises.
\<close>

datatype error = AssertionError | Exception string

text \<open>
  \<^verbatim>\<open>type_to_gtype\<close> returns the tuple (C type, GType, marshaller name, is a pointer).
  An argument is kept as (resolved name, that tuple, \<^verbatim>\<open>tp:type\<close>).
\<close>

type_synonym type_info = "string \<times> string \<times> string \<times> bool"
type_synonym arg_info = "string \<times> type_info \<times> string"

record generator =
  dom_node :: element
  header :: "string list"
  body :: "string list"
  prefix_lc :: string
  prefix_uc :: string
  prefix_mc :: string
  basename :: string

text \<open>\<^verbatim>\<open>Generator.__init__\<close>\<close>

definition Generator_init :: "element \<Rightarrow> string \<Rightarrow> string \<Rightarrow> generator" where
  "Generator_init d prefix bn =
     \<lparr>dom_node = d, header = [], body = [],
      prefix_lc = lower prefix, prefix_uc = upper prefix,
      prefix_mc = remove_char (CHR ''_'') prefix, basename = bn\<rparr>"

text \<open>
  A call \<^verbatim>\<open>self.h(s)\<close> or \<^verbatim>\<open>self.b(s)\<close> appends one line to the header or to the
  body. Each method of the generator is modelled by the sequence of these calls it
  makes, in the order of the source, which \<open>emit\<close> then performs on the state.
\<close>

datatype call = H string | B string

fun perform :: "call \<Rightarrow> generator \<Rightarrow> generator" where
  "perform (H s) self = self\<lparr>header := header self @ [s]\<rparr>"
| "perform (B s) self = self\<lparr>body := body self @ [s]\<rparr>"

definition emit :: "call list \<Rightarrow> generator \<Rightarrow> generator" where
  "emit calls self = fold perform calls self"

text \<open>A \<^verbatim>\<open>for\<close> loop whose body may raise: the first exception ends it.\<close>

fun for_each :: "('a \<Rightarrow> 's \<Rightarrow> error + 's) \<Rightarrow> 'a list \<Rightarrow> 's \<Rightarrow> error + 's" where
  "for_each f [] s = Inr s"
| "for_each f (x # xs) s = (case f x s of Inl e \<Rightarrow> Inl e | Inr s' \<Rightarrow> for_each f xs s')"

subsection \<open>\<^verbatim>\<open>Generator.do_method\<close>\<close>

text \<open>
  The first loop of \<^verbatim>\<open>do_method\<close>, over the \<^verbatim>\<open>arg\<close> elements of the method, with its
  three variables \<^verbatim>\<open>ret_count\<close>, \<^verbatim>\<open>in_args\<close> and \<^verbatim>\<open>out_args\<close>.
\<close>

fun arg_loop :: "(string \<Rightarrow> error + type_info) \<Rightarrow> element list
    \<Rightarrow> nat \<times> arg_info list \<times> arg_info list
    \<Rightarrow> error + (nat \<times> arg_info list \<times> arg_info list)" where
  "arg_loop ttg [] (ret_count, in_args, out_args) = Inr (ret_count, in_args, out_args)"
| "arg_loop ttg (arg # rest) (ret_count, in_args, out_args) =
     (let name = getAttribute arg ''name'';
          direction = getAttribute arg ''direction'';
          type = getAttribute arg ''type'';
          tp_type = getAttribute arg ''tp:type'';
          (name, ret_count) =
            (if direction \<noteq> ''out'' then (''in_'' @ name, ret_count)
             else if name = '''' then (''out'' @ str_nat ret_count, ret_count + 1)
             else (''out_'' @ name, ret_count))
      in case ttg type of
           Inl e \<Rightarrow> Inl e
         | Inr info \<Rightarrow>
             if direction \<noteq> ''out''
             then arg_loop ttg rest (ret_count, in_args @ [(name, info, tp_type)], out_args)
             else arg_loop ttg rest (ret_count, in_args, out_args @ [(name, info, tp_type)]))"

text \<open>The lines of the synchronous stub, once the arguments are known.\<close>

definition in_param :: "arg_info \<Rightarrow> string" where
  "in_param arg =
     (case arg of (name, (ctype, gtype, marshaller, pointer), tp_type) \<Rightarrow>
        (let const = (if pointer then ''const '' else '''')
         in ''    '' @ const @ ctype @ name @ '',''))"

definition out_param :: "arg_info \<Rightarrow> string" where
  "out_param arg =
     (case arg of (name, (ctype, gtype, marshaller, pointer), tp_type) \<Rightarrow>
        ''    '' @ ctype @ ''*'' @ name @ '','')"

definition call_arg :: "arg_info \<Rightarrow> string" where
  "call_arg arg =
     (case arg of (name, (ctype, gtype, marshaller, pointer), tp_type) \<Rightarrow>
        ''      '' @ gtype @ '', '' @ name @ '','')"

definition stub_calls :: "string \<Rightarrow> string \<Rightarrow> string \<Rightarrow> string
    \<Rightarrow> arg_info list \<Rightarrow> arg_info list \<Rightarrow> call list" where
  "stub_calls pfx_lc iface_lc member member_lc in_args out_args =
     [H (''gboolean '' @ pfx_lc @ ''_'' @ iface_lc @ ''_block_on_'' @ member_lc
           @ '' (gpointer *proxy,''),
      B (''gboolean'' @ [CHR 0x0A] @ pfx_lc @ ''_'' @ iface_lc @ ''_block_on_'' @ member_lc
           @ '' (gpointer *proxy,'')]
     @ concat (map (\<lambda>arg. [H (in_param arg), B (in_param arg)]) in_args)
     @ concat (map (\<lambda>arg. [H (out_param arg), B (out_param arg)]) out_args)
     @ [H ''    GError **error);'',
        H '''',
        B ''    GError **error)'',
        B ''{'',
        B ''  DBusGProxy *iface = tp_proxy_get_interface ('',
        B ''      TP_PROXY (proxy),'',
        B (''      TP_IFACE_QUARK_'' @ upper iface_lc @ '',''),
        B ''      error);'',
        B '''',
        B ''  if (iface == NULL)'',
        B ''    return FALSE;'',
        B '''',
        B (''  return dbus_g_proxy_call (iface, '' @ [CHR 0x22] @ member @ [CHR 0x22]
             @ '', error,''),
        B ''      /* in arguments */'']
     @ map (\<lambda>arg. B (call_arg arg)) in_args
     @ [B ''      G_TYPE_INVALID,'',
        B ''      /* out arguments */'']
     @ map (\<lambda>arg. B (call_arg arg)) out_args
     @ [B ''      G_TYPE_INVALID);'',
        B ''}'',
        B '''',
        B '''',
        H '''']"

definition do_method :: "(string \<Rightarrow> error + type_info) \<Rightarrow> (string \<Rightarrow> error + string)
    \<Rightarrow> string \<Rightarrow> element \<Rightarrow> generator \<Rightarrow> error + generator" where
  "do_method ttg cl iface method self =
     (let iface_lc = lower iface;
          member = getAttribute method ''name''
      in case cl member of
           Inl e \<Rightarrow> Inl e
         | Inr member_lc \<Rightarrow>
             (let member_uc = upper member_lc
              in case arg_loop ttg (getElementsByTagName method ''arg'') (0, [], []) of
                   Inl e \<Rightarrow> Inl e
                 | Inr (ret_count, in_args, out_args) \<Rightarrow>
                     Inr (emit (stub_calls (prefix_lc self) iface_lc member member_lc
                                  in_args out_args) self)))"

subsection \<open>\<^verbatim>\<open>Generator.do_signal_add\<close>, \<^verbatim>\<open>do_signal\<close> and \<^verbatim>\<open>do_interface\<close>\<close>

text \<open>The loop of \<^verbatim>\<open>do_signal_add\<close> that collects the GType of every argument.\<close>

fun gtypes_loop :: "(string \<Rightarrow> error + type_info) \<Rightarrow> element list \<Rightarrow> string list
    \<Rightarrow> error + string list" where
  "gtypes_loop ttg [] gtypes = Inr gtypes"
| "gtypes_loop ttg (i # rest) gtypes =
     (let name = getAttribute i ''name'';
          type = getAttribute i ''type''
      in case ttg type of
           Inl e \<Rightarrow> Inl e
         | Inr (ctype, gtype, marshaller, pointer) \<Rightarrow> gtypes_loop ttg rest (gtypes @ [gtype]))"

definition signal_calls :: "string \<Rightarrow> string list \<Rightarrow> call list" where
  "signal_calls signal_name gtypes =
     [H (''  dbus_g_proxy_add_signal (proxy, '' @ [CHR 0x22] @ signal_name @ [CHR 0x22] @ '','')]
     @ map (\<lambda>gtype. H (''      '' @ gtype @ '','')) gtypes
     @ [H ''      G_TYPE_INVALID);'']"

definition do_signal_add :: "(string \<Rightarrow> error + type_info) \<Rightarrow> element \<Rightarrow> generator
    \<Rightarrow> error + generator" where
  "do_signal_add ttg signal self =
     (case gtypes_loop ttg (getElementsByTagName signal ''arg'') [] of
        Inl e \<Rightarrow> Inl e
      | Inr gtypes \<Rightarrow> Inr (emit (signal_calls (getAttribute signal ''name'') gtypes) self))"

text \<open>\<^verbatim>\<open>do_signal\<close> is \<^verbatim>\<open>pass\<close>.\<close>

definition do_signal :: "element \<Rightarrow> generator \<Rightarrow> error + generator" where
  "do_signal signal self = Inr self"

definition do_interface :: "(string \<Rightarrow> error + type_info) \<Rightarrow> (string \<Rightarrow> error + string)
    \<Rightarrow> element \<Rightarrow> generator \<Rightarrow> error + generator" where
  "do_interface ttg cl node self =
     (let ifaces = getElementsByTagName node ''interface''
      in if length ifaces \<noteq> 1 then Inl AssertionError
         else
           (let iface = ifaces ! 0;
                name = remove_char (CHR ''/'') (getAttribute node ''name'');
                signals = getElementsByTagName node ''signal'';
                methods = getElementsByTagName node ''method'';
                self = emit [H ''static inline void'',
                             H (prefix_lc self @ ''_add_signals_for_'' @ lower name
                                  @ '' (DBusGProxy *proxy)''),
                             H ''{''] self
            in case for_each (do_signal_add ttg) signals self of
                 Inl e \<Rightarrow> Inl e
               | Inr self \<Rightarrow>
                   (let self = emit [H ''}'', H '''', H ''''] self
                    in case for_each do_signal signals self of
                         Inl e \<Rightarrow> Inl e
                       | Inr self \<Rightarrow> for_each (do_method ttg cl name) methods self)))"

subsection \<open>\<^verbatim>\<open>Generator.__call__\<close> and the main program\<close>

text \<open>
  \<^verbatim>\<open>list.sort(cmp)\<close> of Python 2 is stable and asks only whether \<^verbatim>\<open>cmp(x, y) < 0\<close>. For
  a comparison function that is a total preorder every stable sort gives the same
  list; it is written here as the insertion sort.
\<close>

fun insort_cmp :: "('a \<Rightarrow> 'a \<Rightarrow> int) \<Rightarrow> 'a \<Rightarrow> 'a list \<Rightarrow> 'a list" where
  "insort_cmp cmp x [] = [x]"
| "insort_cmp cmp x (y # ys) = (if cmp y x < 0 then y # insort_cmp cmp x ys else x # y # ys)"

definition sort_cmp :: "('a \<Rightarrow> 'a \<Rightarrow> int) \<Rightarrow> 'a list \<Rightarrow> 'a list" where
  "sort_cmp cmp xs = foldr (insort_cmp cmp) xs []"

text \<open>
  The file system is a map from file names to contents; \<^verbatim>\<open>open(name, 'w').write(s)\<close>
  replaces the content of \<open>name\<close> by \<open>s\<close>. The result is the generator's final state
  and the new file system. An exception of a helper or of the \<^verbatim>\<open>assert\<close> ends the run
  before any file is opened. A failure of \<^verbatim>\<open>open\<close> or \<^verbatim>\<open>write\<close> itself is not
  modelled.
\<close>

type_synonym files = "string \<rightharpoonup> string"

definition Generator_call :: "(element \<Rightarrow> element \<Rightarrow> int) \<Rightarrow> (string \<Rightarrow> error + type_info)
    \<Rightarrow> (string \<Rightarrow> error + string) \<Rightarrow> generator \<Rightarrow> files \<Rightarrow> error + (generator \<times> files)" where
  "Generator_call cmp ttg cl self fs =
     (let self = emit [H ''#include <dbus/dbus-glib.h>'',
                       H ''#include <telepathy-glib/proxy.h>'',
                       H ''#include <telepathy-glib/interfaces.h>'',
                       H '''',
                       B (''#include '' @ [CHR 0x22] @ basename self @ ''.h'' @ [CHR 0x22]),
                       B ''''] self;
          ifaces = getElementsByTagName (dom_node self) ''node'';
          ifaces = sort_cmp cmp ifaces
      in case for_each (do_interface ttg cl) ifaces self of
           Inl e \<Rightarrow> Inl e
         | Inr self \<Rightarrow>
             (let fs = fs(basename self @ ''.h'' \<mapsto> join [CHR 0x0A] (header self));
                  fs = fs(basename self @ ''.c'' \<mapsto> join [CHR 0x0A] (body self))
              in Inr (self, fs)))"

text \<open>
  The main program, after \<^verbatim>\<open>xml.dom.minidom.parse\<close> has read the document: \<open>d\<close> is
  the document, \<open>prefix\<close> and \<open>bn\<close> are the second and third command-line arguments.
\<close>

definition main :: "(element \<Rightarrow> element \<Rightarrow> int) \<Rightarrow> (string \<Rightarrow> error + type_info)
    \<Rightarrow> (string \<Rightarrow> error + string) \<Rightarrow> element \<Rightarrow> string \<Rightarrow> string \<Rightarrow> files
    \<Rightarrow> error + (generator \<times> files)" where
  "main cmp ttg cl d prefix bn fs = Generator_call cmp ttg cl (Generator_init d prefix bn) fs"

text \<open>\<^verbatim>\<open>types_to_gtypes\<close>: the list comprehension stops at the first exception.\<close>

fun types_to_gtypes :: "(string \<Rightarrow> error + type_info) \<Rightarrow> string list \<Rightarrow> error + string list" where
  "types_to_gtypes ttg [] = Inr []"
| "types_to_gtypes ttg (t # types) =
     (case ttg t of
        Inl e \<Rightarrow> Inl e
      | Inr (ctype, gtype, marshaller, pointer) \<Rightarrow>
          (case types_to_gtypes ttg types of
             Inl e \<Rightarrow> Inl e
           | Inr gtypes \<Rightarrow> Inr (gtype # gtypes)))"

section \<open>Notions used to state the properties\<close>

subsection \<open>The lines a sequence of calls adds to each buffer\<close>

fun h_lines :: "call list \<Rightarrow> string list" where
  "h_lines [] = []"
| "h_lines (H s # cs) = s # h_lines cs"
| "h_lines (B s # cs) = h_lines cs"

fun b_lines :: "call list \<Rightarrow> string list" where
  "b_lines [] = []"
| "b_lines (H s # cs) = b_lines cs"
| "b_lines (B s # cs) = s # b_lines cs"

text \<open>Adding lines to the two buffers.\<close>

definition add_lines :: "string list \<Rightarrow> string list \<Rightarrow> generator \<Rightarrow> generator" where
  "add_lines hs bs self = self\<lparr>header := header self @ hs, body := body self @ bs\<rparr>"

subsection \<open>The arguments of a method, as the loop of \<^verbatim>\<open>do_method\<close> sees them\<close>

text \<open>
  \<open>is_out\<close> is the test \<^verbatim>\<open>direction != 'out'\<close> of the loop, negated; \<open>unnamed\<close>
  is its test \<^verbatim>\<open>not name\<close>.
\<close>

definition is_out :: "element \<Rightarrow> bool" where
  "is_out arg \<longleftrightarrow> getAttribute arg ''direction'' = ''out''"

definition unnamed :: "element \<Rightarrow> bool" where
  "unnamed arg \<longleftrightarrow> getAttribute arg ''name'' = ''''"

definition in_args_of :: "element \<Rightarrow> element list" where
  "in_args_of method = filter (\<lambda>a. \<not> is_out a) (getElementsByTagName method ''arg'')"

definition out_args_of :: "element \<Rightarrow> element list" where
  "out_args_of method = filter is_out (getElementsByTagName method ''arg'')"

text \<open>
  The components of the tuple that \<open>ttg\<close> returns for the type of an argument,
  where it returns one.
\<close>

definition ctype_of :: "(string \<Rightarrow> error + type_info) \<Rightarrow> element \<Rightarrow> string" where
  "ctype_of ttg arg = fst (projr (ttg (getAttribute arg ''type'')))"

definition gtype_of :: "(string \<Rightarrow> error + type_info) \<Rightarrow> element \<Rightarrow> string" where
  "gtype_of ttg arg = fst (snd (projr (ttg (getAttribute arg ''type''))))"

definition pointer_of :: "(string \<Rightarrow> error + type_info) \<Rightarrow> element \<Rightarrow> bool" where
  "pointer_of ttg arg = snd (snd (snd (projr (ttg (getAttribute arg ''type'')))))"

text \<open>The entry of \<^verbatim>\<open>in_args\<close> for an in-argument.\<close>

definition in_entry :: "(string \<Rightarrow> error + type_info) \<Rightarrow> element \<Rightarrow> arg_info" where
  "in_entry ttg arg =
     (''in_'' @ getAttribute arg ''name'', projr (ttg (getAttribute arg ''type'')),
      getAttribute arg ''tp:type'')"

text \<open>
  The entry of \<^verbatim>\<open>out_args\<close> for an out-argument that the loop meets when
  \<^verbatim>\<open>ret_count\<close> is \<open>k\<close>, and the entries for a list of out-arguments.
\<close>

definition out_entry :: "(string \<Rightarrow> error + type_info) \<Rightarrow> nat \<Rightarrow> element \<Rightarrow> arg_info" where
  "out_entry ttg k arg =
     (if unnamed arg then ''out'' @ str_nat k else ''out_'' @ getAttribute arg ''name'',
      projr (ttg (getAttribute arg ''type'')), getAttribute arg ''tp:type'')"

fun out_entries :: "(string \<Rightarrow> error + type_info) \<Rightarrow> nat \<Rightarrow> element list \<Rightarrow> arg_info list" where
  "out_entries ttg k [] = []"
| "out_entries ttg k (arg # rest) =
     out_entry ttg k arg # out_entries ttg (if unnamed arg then Suc k else k) rest"

text \<open>
  The resolved name of the \<open>j\<close>-th out-argument of the list \<open>os\<close>, in closed form:
  an unnamed one is numbered by the unnamed out-arguments before it.
\<close>

definition out_name :: "element list \<Rightarrow> nat \<Rightarrow> string" where
  "out_name os j =
     (if unnamed (os ! j) then ''out'' @ str_nat (length (filter unnamed (take j os)))
      else ''out_'' @ getAttribute (os ! j) ''name'')"

text \<open>
  The lines of the call payload for the in-arguments and for the out-arguments of an
  argument list, in closed form.
\<close>

definition in_payload :: "(string \<Rightarrow> error + type_info) \<Rightarrow> element list \<Rightarrow> string list" where
  "in_payload ttg args =
     map (\<lambda>a. ''      '' @ gtype_of ttg a @ '', in_'' @ getAttribute a ''name'' @ '','')
       (filter (\<lambda>a. \<not> is_out a) args)"

definition out_payload :: "(string \<Rightarrow> error + type_info) \<Rightarrow> element list \<Rightarrow> string list" where
  "out_payload ttg args =
     map (\<lambda>j. ''      '' @ gtype_of ttg (filter is_out args ! j) @ '', ''
                  @ out_name (filter is_out args) j @ '','')
       [0..<length (filter is_out args)]"

subsection \<open>The lines of a method, a signal, an interface and a run\<close>

text \<open>
  The calls that \<^verbatim>\<open>do_method\<close> makes for a method, when the helpers return: those of
  \<open>stub_calls\<close> for the arguments that the loop collects.
\<close>

definition method_calls :: "string \<Rightarrow> (string \<Rightarrow> error + type_info) \<Rightarrow> (string \<Rightarrow> error + string)
    \<Rightarrow> string \<Rightarrow> element \<Rightarrow> call list" where
  "method_calls pfx ttg cl iface method =
     stub_calls pfx (lower iface) (getAttribute method ''name'')
       (projr (cl (getAttribute method ''name'')))
       (map (in_entry ttg) (in_args_of method)) (out_entries ttg 0 (out_args_of method))"

text \<open>The lines that \<^verbatim>\<open>do_signal_add\<close> adds to the header for a signal.\<close>

definition signal_lines :: "(string \<Rightarrow> error + type_info) \<Rightarrow> element \<Rightarrow> string list" where
  "signal_lines ttg signal =
     [''  dbus_g_proxy_add_signal (proxy, '' @ [CHR 0x22] @ getAttribute signal ''name''
        @ [CHR 0x22] @ '','']
     @ map (\<lambda>a. ''      '' @ gtype_of ttg a @ '','') (getElementsByTagName signal ''arg'')
     @ [''      G_TYPE_INVALID);'']"

text \<open>
  The name that \<^verbatim>\<open>do_interface\<close> gives to the interface of a node, and the lines it
  adds to the header and to the body.
\<close>

definition interface_name :: "element \<Rightarrow> string" where
  "interface_name node = remove_char (CHR ''/'') (getAttribute node ''name'')"

definition interface_h_lines :: "string \<Rightarrow> (string \<Rightarrow> error + type_info)
    \<Rightarrow> (string \<Rightarrow> error + string) \<Rightarrow> element \<Rightarrow> string list" where
  "interface_h_lines pfx ttg cl node =
     [''static inline void'',
      pfx @ ''_add_signals_for_'' @ lower (interface_name node) @ '' (DBusGProxy *proxy)'',
      ''{'']
     @ concat (map (signal_lines ttg) (getElementsByTagName node ''signal''))
     @ [''}'', '''', '''']
     @ concat (map (\<lambda>m. h_lines (method_calls pfx ttg cl (interface_name node) m))
                 (getElementsByTagName node ''method''))"

definition interface_b_lines :: "string \<Rightarrow> (string \<Rightarrow> error + type_info)
    \<Rightarrow> (string \<Rightarrow> error + string) \<Rightarrow> element \<Rightarrow> string list" where
  "interface_b_lines pfx ttg cl node =
     concat (map (\<lambda>m. b_lines (method_calls pfx ttg cl (interface_name node) m))
               (getElementsByTagName node ''method''))"

text \<open>The lines that \<^verbatim>\<open>__call__\<close> adds before the interfaces.\<close>

definition preamble_h :: "string list" where
  "preamble_h = [''#include <dbus/dbus-glib.h>'', ''#include <telepathy-glib/proxy.h>'',
                 ''#include <telepathy-glib/interfaces.h>'', '''']"

definition preamble_b :: "string \<Rightarrow> string list" where
  "preamble_b bn = [''#include '' @ [CHR 0x22] @ bn @ ''.h'' @ [CHR 0x22], '''']"

text \<open>
  The two artifacts of a run: the contents of \<^verbatim>\<open>basename.h\<close> and \<^verbatim>\<open>basename.c\<close>
  after it, or the exception that ended it.
\<close>

definition artifacts :: "string \<Rightarrow> error + (generator \<times> files)
    \<Rightarrow> error + (string option \<times> string option)" where
  "artifacts bn r =
     (case r of Inl e \<Rightarrow> Inl e | Inr (g, fs) \<Rightarrow> Inr (fs (bn @ ''.h''), fs (bn @ ''.c'')))"

section \<open>The helpers of \<^verbatim>\<open>libglibcodegen\<close>\<close>

text \<open>
  Modelled from the spec: \<^verbatim>\<open>cmp_by_name\<close> of \<^verbatim>\<open>libglibcodegen\<close>, which is not among the
  sources. The specification describes it as a comparator over the interface name,
  case-sensitive and lexicographic, and the interface name as free of slashes. The
  interface name of a node is the one \<^verbatim>\<open>do_interface\<close> forms from it, \<open>interface_name\<close>;
  the order on strings is the lexicographic order on character codes, and the result
  follows the convention of \<^verbatim>\<open>cmp\<close>: negative, zero or positive.
\<close>

definition cmp_by_name :: "element \<Rightarrow> element \<Rightarrow> int" where
  "cmp_by_name node1 node2 =
     (let n1 = interface_name node1; n2 = interface_name node2
      in if n1 < n2 then - 1 else if n1 = n2 then 0 else 1)"

text \<open>
  Modelled from the spec: \<^verbatim>\<open>type_to_gtype\<close> of \<^verbatim>\<open>libglibcodegen\<close>, which is not among
  the sources. The specification describes a table from wire signatures to a storage
  type, a marshalling tag and a pointer flag, whose lookup fails for a signature that
  has no entry. Only the two entries of the specification's end-to-end scenario are
  given: the 32-bit integer, passed by value, and the string, passed by pointer.
\<close>

definition type_to_gtype :: "string \<Rightarrow> error + type_info" where
  "type_to_gtype s =
     (if s = ''i'' then Inr (''int32 '', ''G_TYPE_INT'', ''INT'', False)
      else if s = ''s'' then Inr (''char *'', ''G_TYPE_STRING'', ''STRING'', True)
      else Inl (Exception ''UnknownTypeError''))"

text \<open>
  Modelled from the spec: \<^verbatim>\<open>camelcase_to_lower\<close> of \<^verbatim>\<open>libglibcodegen\<close>, which is not
  among the sources. The specification describes a total function from CamelCase to
  lower_snake_case: every capital letter is replaced by its small letter, after an
  underscore unless it is the first character.
\<close>

fun snake :: "string \<Rightarrow> string" where
  "snake [] = []"
| "snake (c # cs) =
     (if char_lower c = c then c # snake cs else CHR ''_'' # char_lower c # snake cs)"

definition camelcase_to_lower :: "string \<Rightarrow> error + string" where
  "camelcase_to_lower s = Inr (case s of [] \<Rightarrow> [] | c # cs \<Rightarrow> char_lower c # snake cs)"

section \<open>Sample documents\<close>

text \<open>
  The documents and methods on which the generator is evaluated below, with the lines
  it emits for them when the helpers are the ones above, the prefix is \<^verbatim>\<open>prefix\<close> and
  the basename is \<^verbatim>\<open>out\<close>.
\<close>

definition arg_elem :: "string \<Rightarrow> string \<Rightarrow> string \<Rightarrow> element" where
  "arg_elem name type direction =
     Element ''arg'' [(''name'', name), (''type'', type), (''direction'', direction)] []"

text \<open>The generator that \<^verbatim>\<open>Generator(dom, 'prefix', 'out')\<close> creates for an empty document.\<close>

definition gen0 :: generator where
  "gen0 = Generator_init (Element ''#document'' [] []) ''prefix'' ''out''"

text \<open>A method with two unnamed out-arguments, and the same method with the two swapped.\<close>

definition two_outs :: element where
  "two_outs = Element ''method'' [(''name'', ''GetPair'')]
     [arg_elem '''' ''i'' ''out'', arg_elem '''' ''s'' ''out'']"

definition two_outs_swapped :: element where
  "two_outs_swapped = Element ''method'' [(''name'', ''GetPair'')]
     [arg_elem '''' ''s'' ''out'', arg_elem '''' ''i'' ''out'']"

text \<open>A method with two named out-arguments.\<close>

definition named_outs :: element where
  "named_outs = Element ''method'' [(''name'', ''GetNamed'')]
     [arg_elem ''a'' ''i'' ''out'', arg_elem ''b'' ''s'' ''out'']"

text \<open>
  A method with two unnamed in-arguments; the first has neither a name nor a
  direction.
\<close>

definition two_ins :: element where
  "two_ins = Element ''method'' [(''name'', ''SetPair'')]
     [Element ''arg'' [(''type'', ''i'')] [], arg_elem '''' ''s'' ''in'']"

text \<open>
  The method of the end-to-end scenario, the lines that \<^verbatim>\<open>do_method\<close> adds for it
  to the header and to the body, and the document of the scenario: one interface,
  Example, with this method.
\<close>

definition do_thing :: element where
  "do_thing = Element ''method'' [(''name'', ''DoThing'')]
     [arg_elem ''value'' ''i'' ''in'', arg_elem '''' ''s'' ''out'']"

definition do_thing_h :: "string list" where
  "do_thing_h =
     [''gboolean prefix_example_block_on_do_thing (gpointer *proxy,'',
      ''    int32 in_value,'',
      ''    char **out0,'',
      ''    GError **error);'',
      '''',
      '''']"

definition do_thing_b :: "string list" where
  "do_thing_b =
     [''gboolean'' @ [CHR 0x0A] @ ''prefix_example_block_on_do_thing (gpointer *proxy,'',
      ''    int32 in_value,'',
      ''    char **out0,'',
      ''    GError **error)'',
      ''{'',
      ''  DBusGProxy *iface = tp_proxy_get_interface ('',
      ''      TP_PROXY (proxy),'',
      ''      TP_IFACE_QUARK_EXAMPLE,'',
      ''      error);'',
      '''',
      ''  if (iface == NULL)'',
      ''    return FALSE;'',
      '''',
      ''  return dbus_g_proxy_call (iface, '' @ [CHR 0x22] @ ''DoThing'' @ [CHR 0x22] @ '', error,'',
      ''      /* in arguments */'',
      ''      G_TYPE_INT, in_value,'',
      ''      G_TYPE_INVALID,'',
      ''      /* out arguments */'',
      ''      G_TYPE_STRING, out0,'',
      ''      G_TYPE_INVALID);'',
      ''}'',
      '''',
      '''']"

definition example_doc :: element where
  "example_doc = Element ''#document'' []
     [Element ''node'' [(''name'', ''Example'')]
        [Element ''interface'' [(''name'', ''Example'')] [do_thing]]]"

text \<open>
  A document with one interface that has one signal and no method, and the lines that
  \<^verbatim>\<open>do_interface\<close> adds to the header for it.
\<close>

definition signal_node :: element where
  "signal_node = Element ''node'' [(''name'', ''/Example'')]
        [Element ''interface'' [(''name'', ''org.example.Example'')]
           [Element ''signal'' [(''name'', ''Changed'')]
              [Element ''arg'' [(''name'', ''value''), (''type'', ''s'')] [],
               Element ''arg'' [(''name'', ''count''), (''type'', ''i'')] []]]]"

definition signal_doc :: element where
  "signal_doc = Element ''#document'' [] [signal_node]"

definition signal_h :: "string list" where
  "signal_h =
     [''static inline void'',
      ''prefix_add_signals_for_example (DBusGProxy *proxy)'',
      ''{'',
      ''  dbus_g_proxy_add_signal (proxy, '' @ [CHR 0x22] @ ''Changed'' @ [CHR 0x22] @ '','',
      ''      G_TYPE_STRING,'',
      ''      G_TYPE_INT,'',
      ''      G_TYPE_INVALID);'',
      ''}'',
      '''',
      '''']"

text \<open>
  A document with three interfaces, named Zeta, Alpha and Mu in this order (two of
  the nodes have a slash before the name), and the lines that the generator adds to
  the header for them.
\<close>

definition iface_node :: "string \<Rightarrow> element" where
  "iface_node n = Element ''node'' [(''name'', n)] [Element ''interface'' [(''name'', n)] []]"

definition zeta_alpha_mu :: element where
  "zeta_alpha_mu = Element ''#document'' []
     [Element ''spec'' [] [iface_node ''/Zeta'', iface_node ''Alpha'', iface_node ''/Mu'']]"

definition zeta_alpha_mu_h :: "string list" where
  "zeta_alpha_mu_h =
     [''static inline void'',
      ''prefix_add_signals_for_alpha (DBusGProxy *proxy)'',
      ''{'',
      ''}'',
      '''',
      '''',
      ''static inline void'',
      ''prefix_add_signals_for_mu (DBusGProxy *proxy)'',
      ''{'',
      ''}'',
      '''',
      '''',
      ''static inline void'',
      ''prefix_add_signals_for_zeta (DBusGProxy *proxy)'',
      ''{'',
      ''}'',
      '''',
      '''']"

text \<open>
  A method whose four arguments have no direction, the direction \<^verbatim>\<open>in\<close>, the direction
  \<^verbatim>\<open>OUT\<close> in capital letters, and the direction \<^verbatim>\<open>out\<close>.
\<close>

definition mixed_dirs :: element where
  "mixed_dirs = Element ''method'' [(''name'', ''Mixed'')]
     [Element ''arg'' [(''name'', ''a''), (''type'', ''i'')] [],
      arg_elem ''b'' ''s'' ''in'',
      arg_elem ''c'' ''i'' ''OUT'',
      arg_elem ''d'' ''s'' ''out'']"

section \<open>Lemmas\<close>

lemma h_lines_append [simp]: "h_lines (xs @ ys) = h_lines xs @ h_lines ys"
  by (induction xs rule: h_lines.induct) auto

lemma b_lines_append [simp]: "b_lines (xs @ ys) = b_lines xs @ b_lines ys"
  by (induction xs rule: b_lines.induct) auto

lemma fold_perform:
  "fold perform cs g = g\<lparr>header := header g @ h_lines cs, body := body g @ b_lines cs\<rparr>"
proof (induction cs arbitrary: g)
  case Nil
  show ?case by simp
next
  case (Cons c cs)
  show ?case by (cases c) (simp_all add: Cons.IH)
qed

lemma emit_eq: "emit cs g = g\<lparr>header := header g @ h_lines cs, body := body g @ b_lines cs\<rparr>"
  by (simp add: emit_def fold_perform)

lemma h_lines_both [simp]: "h_lines (concat (map (\<lambda>a. [H (f a), B (g a)]) xs)) = map f xs"
  by (induction xs) auto

lemma b_lines_both [simp]: "b_lines (concat (map (\<lambda>a. [H (f a), B (g a)]) xs)) = map g xs"
  by (induction xs) auto

lemma h_lines_B [simp]: "h_lines (map (\<lambda>a. B (f a)) xs) = []"
  by (induction xs) auto

lemma b_lines_B [simp]: "b_lines (map (\<lambda>a. B (f a)) xs) = map f xs"
  by (induction xs) auto

lemma h_lines_H [simp]: "h_lines (map (\<lambda>a. H (f a)) xs) = map f xs"
  by (induction xs) auto

lemma b_lines_H [simp]: "b_lines (map (\<lambda>a. H (f a)) xs) = []"
  by (induction xs) auto

lemma h_lines_stub:
  "h_lines (stub_calls p i m ml ins outs) =
     [''gboolean '' @ p @ ''_'' @ i @ ''_block_on_'' @ ml @ '' (gpointer *proxy,'']
     @ map in_param ins @ map out_param outs @ [''    GError **error);'', '''', '''']"
  by (simp add: stub_calls_def)

lemma b_lines_stub:
  "b_lines (stub_calls p i m ml ins outs) =
     [''gboolean'' @ [CHR 0x0A] @ p @ ''_'' @ i @ ''_block_on_'' @ ml @ '' (gpointer *proxy,'']
     @ map in_param ins @ map out_param outs
     @ [''    GError **error)'',
        ''{'',
        ''  DBusGProxy *iface = tp_proxy_get_interface ('',
        ''      TP_PROXY (proxy),'',
        ''      TP_IFACE_QUARK_'' @ upper i @ '','',
        ''      error);'',
        '''',
        ''  if (iface == NULL)'',
        ''    return FALSE;'',
        '''',
        ''  return dbus_g_proxy_call (iface, '' @ [CHR 0x22] @ m @ [CHR 0x22] @ '', error,'',
        ''      /* in arguments */'']
     @ map call_arg ins
     @ [''      G_TYPE_INVALID,'', ''      /* out arguments */'']
     @ map call_arg outs
     @ [''      G_TYPE_INVALID);'', ''}'', '''', '''']"
  by (simp add: stub_calls_def)

lemma arg_loop_result:
  "arg_loop ttg args (rc, ins, outs) = Inr (rc', ins', outs') \<Longrightarrow>
     ins' = ins @ map (in_entry ttg) (filter (\<lambda>a. \<not> is_out a) args) \<and>
     outs' = outs @ out_entries ttg rc (filter is_out args) \<and>
     rc' = rc + length (filter unnamed (filter is_out args))"
proof (induction args arbitrary: rc ins outs)
  case Nil
  then show ?case by simp
next
  case (Cons a args)
  obtain info where i: "ttg (getAttribute a ''type'') = Inr info"
    using Cons.prems by (cases "ttg (getAttribute a ''type'')") (simp_all add: Let_def split: if_splits)
  show ?case
  proof (cases "is_out a")
    case False
    then have "arg_loop ttg args (rc, ins @ [in_entry ttg a], outs) = Inr (rc', ins', outs')"
      using Cons.prems i by (simp add: is_out_def in_entry_def)
    from Cons.IH [OF this] False show ?thesis by simp
  next
    case True
    then have "arg_loop ttg args (if unnamed a then Suc rc else rc, ins, outs @ [out_entry ttg rc a])
        = Inr (rc', ins', outs')"
      using Cons.prems i by (cases "getAttribute a ''name'' = []") (simp_all add: is_out_def out_entry_def unnamed_def)
    from Cons.IH [OF this] True show ?thesis by simp
  qed
qed

lemma arg_loop_types:
  "arg_loop ttg args s = Inr r \<Longrightarrow> a \<in> set args \<Longrightarrow> \<exists>info. ttg (getAttribute a ''type'') = Inr info"
proof (induction args arbitrary: s)
  case Nil
  then show ?case by simp
next
  case (Cons x args)
  obtain rc ins outs where s: "s = (rc, ins, outs)" by (cases s)
  obtain info where i: "ttg (getAttribute x ''type'') = Inr info"
    using Cons.prems(1) unfolding s
    by (cases "ttg (getAttribute x ''type'')") (simp_all add: Let_def split: if_splits)
  show ?case
  proof (cases "a = x")
    case True
    with i show ?thesis by blast
  next
    case False
    then have "a \<in> set args" using Cons.prems(2) by simp
    moreover have "\<exists>s'. arg_loop ttg args s' = Inr r"
      using Cons.prems(1) i unfolding s by (auto simp: Let_def split: if_splits)
    ultimately show ?thesis using Cons.IH by blast
  qed
qed

lemma arg_loop_total:
  "(\<And>a. a \<in> set args \<Longrightarrow> \<exists>info. ttg (getAttribute a ''type'') = Inr info) \<Longrightarrow>
     \<exists>r. arg_loop ttg args s = Inr r"
proof (induction args arbitrary: s)
  case Nil
  show ?case by (cases s) simp
next
  case (Cons x args)
  obtain rc ins outs where s: "s = (rc, ins, outs)" by (cases s)
  have "x \<in> set (x # args)" by simp
  from Cons.prems [OF this] obtain info where i: "ttg (getAttribute x ''type'') = Inr info"
    by blast
  have "\<And>s'. \<exists>r. arg_loop ttg args s' = Inr r"
    using Cons.IH Cons.prems by simp
  then show ?case
    unfolding s using i by (simp add: Let_def split: if_splits)
qed

lemma length_out_entries [simp]: "length (out_entries ttg k os) = length os"
  by (induction os arbitrary: k) auto

lemma out_entries_nth:
  "j < length os \<Longrightarrow>
     out_entries ttg k os ! j = out_entry ttg (k + length (filter unnamed (take j os))) (os ! j)"
proof (induction os arbitrary: k j)
  case Nil
  then show ?case by simp
next
  case (Cons a os)
  show ?case
  proof (cases j)
    case 0
    then show ?thesis by simp
  next
    case (Suc i)
    then have "i < length os" using Cons.prems by simp
    from Cons.IH [OF this] Suc show ?thesis by simp
  qed
qed

lemma digit_inj: "a < 10 \<Longrightarrow> b < 10 \<Longrightarrow> digit a = digit b \<Longrightarrow> a = b"
proof -
  assume a: "a < 10" and b: "b < 10" and e: "digit a = digit b"
  have d: "distinct ''0123456789''" by simp
  have "a < length ''0123456789''" "b < length ''0123456789''" using a b by simp_all
  with d e show "a = b" unfolding digit_def by (simp only: nth_eq_iff_index_eq)
qed

lemma digit_in: "d < 10 \<Longrightarrow> digit d \<in> set ''0123456789''"
  unfolding digit_def by (rule nth_mem) simp

lemma str_nat_nonempty: "str_nat n \<noteq> []"
  by (subst str_nat.simps) simp

lemma str_nat_digits: "set (str_nat n) \<subseteq> set ''0123456789''"
proof (induction n rule: str_nat.induct)
  case (1 n)
  show ?case
  proof (cases "n < 10")
    case True
    then show ?thesis using digit_in [of n] by (subst str_nat.simps) simp
  next
    case False
    have "n mod 10 < 10" by simp
    from digit_in [OF this] "1.IH" [OF False] False show ?thesis
      by (subst str_nat.simps) simp
  qed
qed

lemma str_nat_length: "10 \<le> n \<Longrightarrow> 2 \<le> length (str_nat n)"
proof -
  assume "10 \<le> n"
  then have "str_nat n = str_nat (n div 10) @ [digit (n mod 10)]"
    by (subst str_nat.simps) simp
  moreover have "1 \<le> length (str_nat (n div 10))"
    using str_nat_nonempty [of "n div 10"] by (cases "str_nat (n div 10)") simp_all
  ultimately show ?thesis by simp
qed

lemma str_nat_inj: "str_nat m = str_nat n \<Longrightarrow> m = n"
proof (induction m arbitrary: n rule: str_nat.induct)
  case (1 m)
  show ?case
  proof (cases "m < 10")
    case m: True
    then have sm: "str_nat m = [digit m]" by (subst str_nat.simps) simp
    show ?thesis
    proof (cases "n < 10")
      case True
      then have "str_nat n = [digit n]" by (subst str_nat.simps) simp
      with sm "1.prems" have "digit m = digit n" by simp
      with m True show ?thesis by (rule digit_inj)
    next
      case False
      then have "2 \<le> length (str_nat n)" by (simp add: str_nat_length)
      with sm "1.prems" show ?thesis by simp
    qed
  next
    case m: False
    then have sm: "str_nat m = str_nat (m div 10) @ [digit (m mod 10)]"
      by (subst str_nat.simps) simp
    show ?thesis
    proof (cases "n < 10")
      case True
      then have "str_nat n = [digit n]" by (subst str_nat.simps) simp
      moreover have "2 \<le> length (str_nat m)" using m by (simp add: str_nat_length)
      ultimately show ?thesis using "1.prems" by simp
    next
      case False
      then have sn: "str_nat n = str_nat (n div 10) @ [digit (n mod 10)]"
        by (subst str_nat.simps) simp
      from sm sn "1.prems" have e: "str_nat (m div 10) = str_nat (n div 10)"
        and d: "digit (m mod 10) = digit (n mod 10)" by simp_all
      from "1.IH" [OF m e] have q: "m div 10 = n div 10" .
      have "m mod 10 < 10" "n mod 10 < 10" by simp_all
      then have r: "m mod 10 = n mod 10" using d by (rule digit_inj)
      have "m = 10 * (m div 10) + m mod 10" by simp
      also have "\<dots> = 10 * (n div 10) + n mod 10" using q r by simp
      also have "\<dots> = n" by simp
      finally show ?thesis .
    qed
  qed
qed

lemma str_nat_0: "str_nat 0 = ''0''"
  by (subst str_nat.simps) (simp add: digit_def)

lemma str_nat_1: "str_nat (Suc 0) = ''1''"
  by (subst str_nat.simps) (simp add: digit_def)

lemma do_method_Inr:
  assumes "do_method ttg cl iface method self = Inr self'"
  shows "\<exists>member_lc. cl (getAttribute method ''name'') = Inr member_lc \<and>
           self' = emit (stub_calls (prefix_lc self) (lower iface) (getAttribute method ''name'')
                     member_lc (map (in_entry ttg) (in_args_of method))
                     (out_entries ttg 0 (out_args_of method))) self"
proof -
  obtain member_lc where m: "cl (getAttribute method ''name'') = Inr member_lc"
    using assms by (cases "cl (getAttribute method ''name'')") (simp_all add: do_method_def)
  obtain rc ins outs where
    a: "arg_loop ttg (getElementsByTagName method ''arg'') (0, [], []) = Inr (rc, ins, outs)"
    using assms m
    by (cases "arg_loop ttg (getElementsByTagName method ''arg'') (0, [], [])")
       (auto simp: do_method_def)
  from arg_loop_result [OF a]
  have "ins = map (in_entry ttg) (in_args_of method)"
    and "outs = out_entries ttg 0 (out_args_of method)"
    by (simp_all add: in_args_of_def out_args_of_def)
  with assms m a show ?thesis by (simp add: do_method_def)
qed

lemma in_param_entry:
  "in_param (in_entry ttg a) =
     ''    '' @ (if pointer_of ttg a then ''const '' else '''') @ ctype_of ttg a
       @ ''in_'' @ getAttribute a ''name'' @ '',''"
  by (simp add: in_param_def in_entry_def pointer_of_def ctype_of_def split: prod.splits)

lemma out_param_entry:
  "j < length os \<Longrightarrow>
     out_param (out_entries ttg 0 os ! j) =
       ''    '' @ ctype_of ttg (os ! j) @ ''*'' @ out_name os j @ '',''"
  by (simp add: out_entries_nth out_param_def out_entry_def ctype_of_def out_name_def
      split: prod.splits)

lemma call_arg_in_entry:
  "call_arg (in_entry ttg a) =
     ''      '' @ gtype_of ttg a @ '', in_'' @ getAttribute a ''name'' @ '',''"
  by (simp add: call_arg_def in_entry_def gtype_of_def split: prod.splits)

lemma call_arg_out_entry:
  "j < length os \<Longrightarrow>
     call_arg (out_entries ttg 0 os ! j) =
       ''      '' @ gtype_of ttg (os ! j) @ '', '' @ out_name os j @ '',''"
  by (simp add: out_entries_nth call_arg_def out_entry_def gtype_of_def out_name_def
      split: prod.splits)

lemma map_out_entries:
  "map f (out_entries ttg 0 os) = map (\<lambda>j. f (out_entries ttg 0 os ! j)) [0..<length os]"
  by (rule nth_equalityI) simp_all

lemma out_param_lines:
  "map out_param (out_entries ttg 0 os) =
     map (\<lambda>j. ''    '' @ ctype_of ttg (os ! j) @ ''*'' @ out_name os j @ '','') [0..<length os]"
  by (subst map_out_entries) (simp add: out_param_entry)

lemma call_arg_out_lines:
  "map call_arg (out_entries ttg 0 os) =
     map (\<lambda>j. ''      '' @ gtype_of ttg (os ! j) @ '', '' @ out_name os j @ '','') [0..<length os]"
  by (subst map_out_entries) (simp add: call_arg_out_entry)

lemmas eval_simps =
  getAttribute_def arg_elem_def type_to_gtype_def camelcase_to_lower_def
  char_lower_def char_upper_def lower_def upper_def remove_char_def str_nat_0 str_nat_1

lemma out_name_other:
  assumes "i < length os" "j < length os" "unnamed (os ! i)" "i \<noteq> j"
  shows "out_name os i \<noteq> out_name os j"
proof (cases "unnamed (os ! j)")
  case False
  obtain c cs where s: "str_nat (length (filter unnamed (take i os))) = c # cs"
    using str_nat_nonempty by (cases "str_nat (length (filter unnamed (take i os)))") auto
  have "c \<in> set ''0123456789''"
    using str_nat_digits [of "length (filter unnamed (take i os))"] s by auto
  then have "c \<noteq> CHR ''_''" by auto
  then show ?thesis using assms(3) False s by (simp add: out_name_def)
next
  case True
  have less: "length (filter unnamed (take a os)) < length (filter unnamed (take b os))"
    if "a < b" "b < length os" "unnamed (os ! a)" for a b
  proof -
    have "a < length os" using that(1,2) by simp
    then have 1: "take (Suc a) os = take a os @ [os ! a]" by (rule take_Suc_conv_app_nth)
    have "b = Suc a + (b - Suc a)" using that(1) by simp
    then have "take b os = take (Suc a) os @ take (b - Suc a) (drop (Suc a) os)"
      by (metis take_add)
    with 1 that(3) show ?thesis by simp
  qed
  have "length (filter unnamed (take i os)) \<noteq> length (filter unnamed (take j os))"
  proof (cases "i < j")
    case True
    from less [OF True assms(2) assms(3)] show ?thesis by simp
  next
    case False
    then have "j < i" using assms(4) by simp
    from less [OF this assms(1) True] show ?thesis by simp
  qed
  then have "str_nat (length (filter unnamed (take i os)))
      \<noteq> str_nat (length (filter unnamed (take j os)))"
    using str_nat_inj by blast
  then show ?thesis using assms(3) True by (simp add: out_name_def)
qed

lemma add_lines_simps [simp]:
  "header (add_lines hs bs g) = header g @ hs"
  "body (add_lines hs bs g) = body g @ bs"
  "prefix_lc (add_lines hs bs g) = prefix_lc g"
  "basename (add_lines hs bs g) = basename g"
  "dom_node (add_lines hs bs g) = dom_node g"
  by (simp_all add: add_lines_def)

lemma add_lines_add_lines [simp]:
  "add_lines hs' bs' (add_lines hs bs g) = add_lines (hs @ hs') (bs @ bs') g"
  by (simp add: add_lines_def)

lemma add_lines_Nil [simp]: "add_lines [] [] g = g"
  by (simp add: add_lines_def)

lemma emit_add_lines: "emit cs g = add_lines (h_lines cs) (b_lines cs) g"
  by (simp add: emit_eq add_lines_def)

lemma do_method_add_lines:
  assumes "do_method ttg cl iface method self = Inr self'"
  shows "self' = add_lines (h_lines (method_calls (prefix_lc self) ttg cl iface method))
                   (b_lines (method_calls (prefix_lc self) ttg cl iface method)) self"
proof -
  from do_method_Inr [OF assms] obtain member_lc where
    "cl (getAttribute method ''name'') = Inr member_lc"
    "self' = emit (stub_calls (prefix_lc self) (lower iface) (getAttribute method ''name'')
                     member_lc (map (in_entry ttg) (in_args_of method))
                     (out_entries ttg 0 (out_args_of method))) self"
    by blast
  then show ?thesis by (simp add: method_calls_def emit_add_lines)
qed

lemma for_each_do_method:
  "for_each (do_method ttg cl iface) ms self = Inr self' \<Longrightarrow>
     self' = add_lines (concat (map (\<lambda>m. h_lines (method_calls (prefix_lc self) ttg cl iface m)) ms))
               (concat (map (\<lambda>m. b_lines (method_calls (prefix_lc self) ttg cl iface m)) ms)) self"
proof (induction ms arbitrary: self)
  case Nil
  then show ?case by simp
next
  case (Cons m ms)
  obtain s1 where 1: "do_method ttg cl iface m self = Inr s1"
    using Cons.prems by (cases "do_method ttg cl iface m self") simp_all
  then have 2: "for_each (do_method ttg cl iface) ms s1 = Inr self'"
    using Cons.prems by simp
  from do_method_add_lines [OF 1] Cons.IH [OF 2] show ?case by simp
qed

lemma gtypes_loop_result:
  "gtypes_loop ttg args acc = Inr gs \<Longrightarrow> gs = acc @ map (gtype_of ttg) args"
proof (induction args arbitrary: acc)
  case Nil
  then show ?case by simp
next
  case (Cons a args)
  obtain c g m p where i: "ttg (getAttribute a ''type'') = Inr (c, g, m, p)"
    using Cons.prems
    by (cases "ttg (getAttribute a ''type'')") (auto simp: Let_def)
  then have "gtypes_loop ttg args (acc @ [g]) = Inr gs"
    using Cons.prems by simp
  from Cons.IH [OF this] i show ?case by (simp add: gtype_of_def)
qed

lemma do_signal_add_lines:
  assumes "do_signal_add ttg signal self = Inr self'"
  shows "self' = add_lines (signal_lines ttg signal) [] self"
proof -
  obtain gs where g: "gtypes_loop ttg (getElementsByTagName signal ''arg'') [] = Inr gs"
    using assms
    by (cases "gtypes_loop ttg (getElementsByTagName signal ''arg'') []")
       (simp_all add: do_signal_add_def)
  from gtypes_loop_result [OF g] have "gs = map (gtype_of ttg) (getElementsByTagName signal ''arg'')"
    by simp
  with assms g show ?thesis
    by (simp add: do_signal_add_def emit_add_lines signal_calls_def signal_lines_def comp_def)
qed

lemma for_each_do_signal_add:
  "for_each (do_signal_add ttg) ss self = Inr self' \<Longrightarrow>
     self' = add_lines (concat (map (signal_lines ttg) ss)) [] self"
proof (induction ss arbitrary: self)
  case Nil
  then show ?case by simp
next
  case (Cons s ss)
  obtain s1 where 1: "do_signal_add ttg s self = Inr s1"
    using Cons.prems by (cases "do_signal_add ttg s self") simp_all
  then have 2: "for_each (do_signal_add ttg) ss s1 = Inr self'"
    using Cons.prems by simp
  from do_signal_add_lines [OF 1] Cons.IH [OF 2] show ?case by simp
qed

lemma for_each_do_signal [simp]: "for_each do_signal ss self = Inr self"
  by (induction ss) (simp_all add: do_signal_def)

lemma do_interface_add_lines:
  assumes "do_interface ttg cl node self = Inr self'"
  shows "self' = add_lines (interface_h_lines (prefix_lc self) ttg cl node)
                   (interface_b_lines (prefix_lc self) ttg cl node) self"
    and "length (getElementsByTagName node ''interface'') = 1"
proof -
  show l: "length (getElementsByTagName node ''interface'') = 1"
    using assms by (auto simp: do_interface_def Let_def split: if_splits)
  let ?s0 = "add_lines [''static inline void'',
      prefix_lc self @ ''_add_signals_for_'' @ lower (interface_name node) @ '' (DBusGProxy *proxy)'',
      ''{''] [] self"
  obtain s1 where 1: "for_each (do_signal_add ttg) (getElementsByTagName node ''signal'') ?s0 = Inr s1"
    using assms l
    by (cases "for_each (do_signal_add ttg) (getElementsByTagName node ''signal'') ?s0")
       (simp_all add: do_interface_def Let_def emit_add_lines interface_name_def)
  then have 2: "for_each (do_method ttg cl (interface_name node)) (getElementsByTagName node ''method'')
      (add_lines [''}'', '''', ''''] [] s1) = Inr self'"
    using assms l by (simp add: do_interface_def Let_def emit_add_lines interface_name_def)
  from for_each_do_signal_add [OF 1] for_each_do_method [OF 2]
  show "self' = add_lines (interface_h_lines (prefix_lc self) ttg cl node)
                   (interface_b_lines (prefix_lc self) ttg cl node) self"
    by (simp add: interface_h_lines_def interface_b_lines_def)
qed

lemma for_each_do_interface:
  "for_each (do_interface ttg cl) ns self = Inr self' \<Longrightarrow>
     self' = add_lines (concat (map (interface_h_lines (prefix_lc self) ttg cl) ns))
               (concat (map (interface_b_lines (prefix_lc self) ttg cl) ns)) self"
proof (induction ns arbitrary: self)
  case Nil
  then show ?case by simp
next
  case (Cons n ns)
  obtain s1 where 1: "do_interface ttg cl n self = Inr s1"
    using Cons.prems by (cases "do_interface ttg cl n self") simp_all
  then have 2: "for_each (do_interface ttg cl) ns s1 = Inr self'"
    using Cons.prems by simp
  from do_interface_add_lines(1) [OF 1] Cons.IH [OF 2] show ?case by simp
qed

lemma Generator_call_Inr:
  assumes "Generator_call cmp ttg cl self fs = Inr (self', fs')"
  shows "self' = add_lines
           (preamble_h @ concat (map (interface_h_lines (prefix_lc self) ttg cl)
              (sort_cmp cmp (getElementsByTagName (dom_node self) ''node''))))
           (preamble_b (basename self) @ concat (map (interface_b_lines (prefix_lc self) ttg cl)
              (sort_cmp cmp (getElementsByTagName (dom_node self) ''node'')))) self"
    and "fs' = fs(basename self @ ''.h'' \<mapsto> join [CHR 0x0A] (header self'),
                  basename self @ ''.c'' \<mapsto> join [CHR 0x0A] (body self'))"
proof -
  let ?s0 = "add_lines preamble_h (preamble_b (basename self)) self"
  let ?ns = "sort_cmp cmp (getElementsByTagName (dom_node self) ''node'')"
  have e: "emit [H ''#include <dbus/dbus-glib.h>'',
                       H ''#include <telepathy-glib/proxy.h>'',
                       H ''#include <telepathy-glib/interfaces.h>'',
                       H '''',
                       B (''#include '' @ [CHR 0x22] @ basename self @ ''.h'' @ [CHR 0x22]),
                       B ''''] self = ?s0"
    by (simp add: emit_add_lines preamble_h_def preamble_b_def)
  obtain s1 where 1: "for_each (do_interface ttg cl) ?ns ?s0 = Inr s1"
    using assms unfolding Generator_call_def e
    by (cases "for_each (do_interface ttg cl) ?ns ?s0") (simp_all add: Let_def)
  from for_each_do_interface [OF 1] have s1: "s1 = add_lines
           (preamble_h @ concat (map (interface_h_lines (prefix_lc self) ttg cl) ?ns))
           (preamble_b (basename self) @ concat (map (interface_b_lines (prefix_lc self) ttg cl) ?ns))
           self"
    by simp
  then have b: "basename s1 = basename self" by simp
  from assms 1 have eq: "self' = s1"
    unfolding Generator_call_def e by (simp add: Let_def)
  from assms 1 have "fs(basename s1 @ ''.h'' \<mapsto> join [CHR 0x0A] (header s1),
                  basename s1 @ ''.c'' \<mapsto> join [CHR 0x0A] (body s1)) = fs'"
    unfolding Generator_call_def e by (auto simp: Let_def)
  then have "fs' = fs(basename self @ ''.h'' \<mapsto> join [CHR 0x0A] (header self'),
                  basename self @ ''.c'' \<mapsto> join [CHR 0x0A] (body self'))"
    unfolding eq b by (rule sym)
  with s1 eq show "self' = add_lines
           (preamble_h @ concat (map (interface_h_lines (prefix_lc self) ttg cl) ?ns))
           (preamble_b (basename self) @ concat (map (interface_b_lines (prefix_lc self) ttg cl) ?ns))
           self"
    and "fs' = fs(basename self @ ''.h'' \<mapsto> join [CHR 0x0A] (header self'),
                  basename self @ ''.c'' \<mapsto> join [CHR 0x0A] (body self'))"
    by simp_all
qed

section \<open>The claims\<close>

lemma in_param_lines:
  "map in_param (map (in_entry ttg) xs) =
     map (\<lambda>a. ''    '' @ (if pointer_of ttg a then ''const '' else '''') @ ctype_of ttg a
                  @ ''in_'' @ getAttribute a ''name'' @ '','') xs"
  by (simp add: in_param_entry comp_def)

lemma call_arg_in_lines:
  "map call_arg (map (in_entry ttg) xs) =
     map (\<lambda>a. ''      '' @ gtype_of ttg a @ '', in_'' @ getAttribute a ''name'' @ '','') xs"
  by (simp add: call_arg_in_entry comp_def)

lemma do_method_lines:
  assumes "do_method ttg cl iface method self = Inr self'"
  shows "\<exists>member_lc. cl (getAttribute method ''name'') = Inr member_lc \<and>
     header self' = header self
       @ h_lines (stub_calls (prefix_lc self) (lower iface) (getAttribute method ''name'')
                     member_lc (map (in_entry ttg) (in_args_of method))
                     (out_entries ttg 0 (out_args_of method))) \<and>
     body self' = body self
       @ b_lines (stub_calls (prefix_lc self) (lower iface) (getAttribute method ''name'')
                     member_lc (map (in_entry ttg) (in_args_of method))
                     (out_entries ttg 0 (out_args_of method)))"
proof -
  from do_method_Inr [OF assms] obtain member_lc where
    m: "cl (getAttribute method ''name'') = Inr member_lc" and
    s: "self' = emit (stub_calls (prefix_lc self) (lower iface) (getAttribute method ''name'')
                     member_lc (map (in_entry ttg) (in_args_of method))
                     (out_entries ttg 0 (out_args_of method))) self"
    by blast
  from s have "header self' = header self
       @ h_lines (stub_calls (prefix_lc self) (lower iface) (getAttribute method ''name'')
                     member_lc (map (in_entry ttg) (in_args_of method))
                     (out_entries ttg 0 (out_args_of method)))"
    and "body self' = body self
       @ b_lines (stub_calls (prefix_lc self) (lower iface) (getAttribute method ''name'')
                     member_lc (map (in_entry ttg) (in_args_of method))
                     (out_entries ttg 0 (out_args_of method)))"
    by (simp_all add: emit_eq)
  with m show ?thesis by blast
qed

text \<open>
  Claim C6. The parameters of every generated stub, in the header and in the body:
  after the proxy, all in-arguments in the order of the schema, with \<^verbatim>\<open>const\<close> exactly
  when the pointer flag of the type is set; then all out-arguments in the order of the
  schema, each with a \<^verbatim>\<open>*\<close> after its C type whatever the pointer flag; then the
  error parameter, which is the last.
\<close>

theorem parameter_list_shape:
  assumes "do_method ttg cl iface method self = Inr self'"
  shows "\<exists>member_lc rest.
     cl (getAttribute method ''name'') = Inr member_lc \<and>
     header self' = header self
       @ [''gboolean '' @ prefix_lc self @ ''_'' @ lower iface @ ''_block_on_'' @ member_lc
            @ '' (gpointer *proxy,'']
       @ map (\<lambda>a. ''    '' @ (if pointer_of ttg a then ''const '' else '''') @ ctype_of ttg a
                    @ ''in_'' @ getAttribute a ''name'' @ '','') (in_args_of method)
       @ map (\<lambda>j. ''    '' @ ctype_of ttg (out_args_of method ! j) @ ''*''
                    @ out_name (out_args_of method) j @ '','') [0..<length (out_args_of method)]
       @ [''    GError **error);'', '''', ''''] \<and>
     body self' = body self
       @ [''gboolean'' @ [CHR 0x0A] @ prefix_lc self @ ''_'' @ lower iface @ ''_block_on_''
            @ member_lc @ '' (gpointer *proxy,'']
       @ map (\<lambda>a. ''    '' @ (if pointer_of ttg a then ''const '' else '''') @ ctype_of ttg a
                    @ ''in_'' @ getAttribute a ''name'' @ '','') (in_args_of method)
       @ map (\<lambda>j. ''    '' @ ctype_of ttg (out_args_of method ! j) @ ''*''
                    @ out_name (out_args_of method) j @ '','') [0..<length (out_args_of method)]
       @ [''    GError **error)''] @ rest"
proof -
  from do_method_lines [OF assms] obtain member_lc where
    m: "cl (getAttribute method ''name'') = Inr member_lc" and
    h: "header self' = header self
       @ h_lines (stub_calls (prefix_lc self) (lower iface) (getAttribute method ''name'')
                     member_lc (map (in_entry ttg) (in_args_of method))
                     (out_entries ttg 0 (out_args_of method)))" and
    b: "body self' = body self
       @ b_lines (stub_calls (prefix_lc self) (lower iface) (getAttribute method ''name'')
                     member_lc (map (in_entry ttg) (in_args_of method))
                     (out_entries ttg 0 (out_args_of method)))"
    by blast
  show ?thesis
    apply (rule exI [of _ member_lc])
    unfolding h b h_lines_stub b_lines_stub in_param_lines out_param_lines
    using m by simp
qed

lemma do_method_body:
  assumes "do_method ttg cl iface method self = Inr self'"
  shows "\<exists>member_lc.
     cl (getAttribute method ''name'') = Inr member_lc \<and>
     body self' = body self
       @ [''gboolean'' @ [CHR 0x0A] @ prefix_lc self @ ''_'' @ lower iface @ ''_block_on_''
            @ member_lc @ '' (gpointer *proxy,'']
       @ map in_param (map (in_entry ttg) (in_args_of method))
       @ map out_param (out_entries ttg 0 (out_args_of method))
       @ [''    GError **error)'',
          ''{'',
          ''  DBusGProxy *iface = tp_proxy_get_interface ('',
          ''      TP_PROXY (proxy),'',
          ''      TP_IFACE_QUARK_'' @ upper (lower iface) @ '','',
          ''      error);'',
          '''',
          ''  if (iface == NULL)'',
          ''    return FALSE;'',
          '''',
          ''  return dbus_g_proxy_call (iface, '' @ [CHR 0x22] @ getAttribute method ''name''
             @ [CHR 0x22] @ '', error,'',
          ''      /* in arguments */'']
       @ map call_arg (map (in_entry ttg) (in_args_of method))
       @ [''      G_TYPE_INVALID,'', ''      /* out arguments */'']
       @ map call_arg (out_entries ttg 0 (out_args_of method))
       @ [''      G_TYPE_INVALID);'', ''}'', '''', '''']"
proof -
  from do_method_lines [OF assms] obtain member_lc where
    m: "cl (getAttribute method ''name'') = Inr member_lc" and
    b: "body self' = body self
       @ b_lines (stub_calls (prefix_lc self) (lower iface) (getAttribute method ''name'')
                     member_lc (map (in_entry ttg) (in_args_of method))
                     (out_entries ttg 0 (out_args_of method)))"
    by blast
  show ?thesis
    apply (rule exI [of _ member_lc])
    unfolding b b_lines_stub
    using m by simp
qed

text \<open>
  Claim C7. The body of every generated stub gets the proxy of the interface, with
  the quark named after the interface, and returns \<^verbatim>\<open>FALSE\<close> at once when there is
  none; otherwise it returns the result of \<^verbatim>\<open>dbus_g_proxy_call\<close>, which is called with
  the name the method has in the schema, not with its lower-case form.
\<close>

theorem stub_body:
  assumes "do_method ttg cl iface method self = Inr self'"
  shows "\<exists>member_lc.
     cl (getAttribute method ''name'') = Inr member_lc \<and>
     body self' = body self
       @ [''gboolean'' @ [CHR 0x0A] @ prefix_lc self @ ''_'' @ lower iface @ ''_block_on_''
            @ member_lc @ '' (gpointer *proxy,'']
       @ map in_param (map (in_entry ttg) (in_args_of method))
       @ map out_param (out_entries ttg 0 (out_args_of method))
       @ [''    GError **error)'',
          ''{'',
          ''  DBusGProxy *iface = tp_proxy_get_interface ('',
          ''      TP_PROXY (proxy),'',
          ''      TP_IFACE_QUARK_'' @ upper (lower iface) @ '','',
          ''      error);'',
          '''',
          ''  if (iface == NULL)'',
          ''    return FALSE;'',
          '''',
          ''  return dbus_g_proxy_call (iface, '' @ [CHR 0x22] @ getAttribute method ''name''
             @ [CHR 0x22] @ '', error,'',
          ''      /* in arguments */'']
       @ map call_arg (map (in_entry ttg) (in_args_of method))
       @ [''      G_TYPE_INVALID,'', ''      /* out arguments */'']
       @ map call_arg (out_entries ttg 0 (out_args_of method))
       @ [''      G_TYPE_INVALID);'', ''}'', '''', '''']"
proof -
  from do_method_lines [OF assms] obtain member_lc where
    m: "cl (getAttribute method ''name'') = Inr member_lc" and
    b: "body self' = body self
       @ b_lines (stub_calls (prefix_lc self) (lower iface) (getAttribute method ''name'')
                     member_lc (map (in_entry ttg) (in_args_of method))
                     (out_entries ttg 0 (out_args_of method)))"
    by blast
  show ?thesis
    apply (rule exI [of _ member_lc])
    unfolding b b_lines_stub
    using m by simp
qed

lemmas gen_simps =
  do_method_def stub_calls_def emit_add_lines in_param_def out_param_def call_arg_def
  gen0_def Generator_init_def add_lines_def

lemma do_method_do_thing:
  "do_method type_to_gtype camelcase_to_lower ''Example'' do_thing gen0
     = Inr (add_lines do_thing_h do_thing_b gen0)"
  by (simp add: do_thing_def do_thing_h_def do_thing_b_def gen_simps eval_simps)

theorem parameter_list_shape_witness:
  "do_method type_to_gtype camelcase_to_lower ''Example'' do_thing gen0
     = Inr (add_lines do_thing_h do_thing_b gen0)
   \<and> header (add_lines do_thing_h do_thing_b gen0)
       = [''gboolean prefix_example_block_on_do_thing (gpointer *proxy,'']
         @ map (\<lambda>a. ''    '' @ (if pointer_of type_to_gtype a then ''const '' else '''')
                      @ ctype_of type_to_gtype a @ ''in_'' @ getAttribute a ''name'' @ '','')
             [arg_elem ''value'' ''i'' ''in'']
         @ map (\<lambda>j. ''    '' @ ctype_of type_to_gtype ([arg_elem '''' ''s'' ''out''] ! j) @ ''*''
                      @ out_name [arg_elem '''' ''s'' ''out''] j @ '','') [0..<1]
         @ [''    GError **error);'', '''', '''']"
proof -
  note h = do_method_do_thing
  have i: "in_args_of do_thing = [arg_elem ''value'' ''i'' ''in'']"
    and o: "out_args_of do_thing = [arg_elem '''' ''s'' ''out'']"
    by (simp_all add: in_args_of_def out_args_of_def do_thing_def is_out_def eval_simps)
  from parameter_list_shape [OF h] obtain member_lc where
    m: "camelcase_to_lower (getAttribute do_thing ''name'') = Inr member_lc" and
    e: "header (add_lines do_thing_h do_thing_b gen0) = header gen0
       @ [''gboolean '' @ prefix_lc gen0 @ ''_'' @ lower ''Example'' @ ''_block_on_'' @ member_lc
            @ '' (gpointer *proxy,'']
       @ map (\<lambda>a. ''    '' @ (if pointer_of type_to_gtype a then ''const '' else '''')
                    @ ctype_of type_to_gtype a
                    @ ''in_'' @ getAttribute a ''name'' @ '','') (in_args_of do_thing)
       @ map (\<lambda>j. ''    '' @ ctype_of type_to_gtype (out_args_of do_thing ! j) @ ''*''
                    @ out_name (out_args_of do_thing) j @ '','') [0..<length (out_args_of do_thing)]
       @ [''    GError **error);'', '''', '''']"
    by blast
  from m have "member_lc = ''do_thing''" by (simp add: do_thing_def eval_simps)
  with e i o have c: "header (add_lines do_thing_h do_thing_b gen0)
       = [''gboolean prefix_example_block_on_do_thing (gpointer *proxy,'']
         @ map (\<lambda>a. ''    '' @ (if pointer_of type_to_gtype a then ''const '' else '''')
                      @ ctype_of type_to_gtype a @ ''in_'' @ getAttribute a ''name'' @ '','')
             [arg_elem ''value'' ''i'' ''in'']
         @ map (\<lambda>j. ''    '' @ ctype_of type_to_gtype ([arg_elem '''' ''s'' ''out''] ! j) @ ''*''
                      @ out_name [arg_elem '''' ''s'' ''out''] j @ '','') [0..<1]
         @ [''    GError **error);'', '''', '''']"
    by (simp add: gen0_def Generator_init_def eval_simps)
  show ?thesis by (rule conjI [OF h c])
qed

theorem stub_body_witness:
  "do_method type_to_gtype camelcase_to_lower ''Example'' do_thing gen0
     = Inr (add_lines do_thing_h do_thing_b gen0)
   \<and> camelcase_to_lower (getAttribute do_thing ''name'') = Inr ''do_thing''
   \<and> body (add_lines do_thing_h do_thing_b gen0) = do_thing_b"
proof -
  note h = do_method_do_thing
  from stub_body [OF h] obtain member_lc where
    m: "camelcase_to_lower (getAttribute do_thing ''name'') = Inr member_lc"
    by blast
  then have "member_lc = ''do_thing''" by (simp add: do_thing_def eval_simps)
  with m have "camelcase_to_lower (getAttribute do_thing ''name'') = Inr ''do_thing''" by simp
  moreover have "body (add_lines do_thing_h do_thing_b gen0) = do_thing_b"
    by (simp add: gen0_def Generator_init_def)
  ultimately show ?thesis using h by blast
qed

lemma in_payload_eq:
  "map call_arg (map (in_entry ttg) (in_args_of method))
     = in_payload ttg (getElementsByTagName method ''arg'')"
  unfolding call_arg_in_lines in_payload_def in_args_of_def ..

lemma out_payload_eq:
  "map call_arg (out_entries ttg 0 (out_args_of method))
     = out_payload ttg (getElementsByTagName method ''arg'')"
  unfolding call_arg_out_lines out_payload_def out_args_of_def ..

lemma filter_nths: "filter P (map ((!) xs) p) = map ((!) xs) (filter (\<lambda>i. P (xs ! i)) p)"
  by (simp add: filter_map comp_def)

lemma in_payload_reorder:
  "in_payload ttg (map ((!) args) p)
     = map (\<lambda>i. ''      '' @ gtype_of ttg (args ! i) @ '', in_''
                  @ getAttribute (args ! i) ''name'' @ '','')
         (filter (\<lambda>i. \<not> is_out (args ! i)) p)"
  by (simp add: in_payload_def filter_nths comp_def)

lemma out_payload_length:
  "length (out_payload ttg (map ((!) args) p)) = length (filter (\<lambda>i. is_out (args ! i)) p)"
  by (simp add: out_payload_def filter_nths)

lemma out_payload_nth:
  assumes "j < length (filter (\<lambda>i. is_out (args ! i)) p)"
  shows "out_payload ttg (map ((!) args) p) ! j
     = ''      '' @ gtype_of ttg (args ! (filter (\<lambda>i. is_out (args ! i)) p ! j)) @ '', ''
         @ out_name (filter is_out (map ((!) args) p)) j @ '',''"
  using assms by (simp add: out_payload_def filter_nths)

lemma out_payload_named:
  assumes "\<forall>a \<in> set (filter is_out args). \<not> unnamed a"
  shows "out_payload ttg args
     = map (\<lambda>a. ''      '' @ gtype_of ttg a @ '', out_'' @ getAttribute a ''name'' @ '','')
         (filter is_out args)"
proof (rule nth_equalityI)
  show "length (out_payload ttg args)
      = length (map (\<lambda>a. ''      '' @ gtype_of ttg a @ '', out_'' @ getAttribute a ''name'' @ '','')
         (filter is_out args))"
    by (simp add: out_payload_def)
next
  fix j
  assume "j < length (out_payload ttg args)"
  then have j: "j < length (filter is_out args)" by (simp add: out_payload_def)
  then have "filter is_out args ! j \<in> set (filter is_out args)" by (rule nth_mem)
  with assms have "\<not> unnamed (filter is_out args ! j)" by blast
  then have "out_name (filter is_out args) j
      = ''out_'' @ getAttribute (filter is_out args ! j) ''name''"
    by (simp add: out_name_def)
  with j show "out_payload ttg args ! j
      = map (\<lambda>a. ''      '' @ gtype_of ttg a @ '', out_'' @ getAttribute a ''name'' @ '','')
         (filter is_out args) ! j"
    by (simp add: out_payload_def)
qed

lemma out_payload_reorder_named:
  assumes "\<forall>i \<in> set p. is_out (args ! i) \<longrightarrow> \<not> unnamed (args ! i)"
  shows "out_payload ttg (map ((!) args) p)
     = map (\<lambda>i. ''      '' @ gtype_of ttg (args ! i) @ '', out_''
                  @ getAttribute (args ! i) ''name'' @ '','')
         (filter (\<lambda>i. is_out (args ! i)) p)"
proof -
  have "\<forall>a \<in> set (filter is_out (map ((!) args) p)). \<not> unnamed a"
    using assms by auto
  from out_payload_named [OF this] show ?thesis
    by (simp add: filter_nths comp_def)
qed

text \<open>
  Claim C3, as amended. The call payload of every method lists, after the line of the
  call itself, all in-arguments in the order of the schema, the sentinel
  \<^verbatim>\<open>G_TYPE_INVALID\<close>, all out-arguments in the order of the schema, and the sentinel
  again. When the arguments of the schema are reordered (\<open>p\<close> lists the old positions
  in the new order), the payload entries of the in-arguments are reordered in the same
  way, and so are the GTypes of the out-arguments, and the whole entries of the
  out-arguments when none of them is unnamed. The name of an unnamed out-argument is
  given by its position and does not move with it.
\<close>

theorem call_payload_order:
  assumes "do_method ttg cl iface method self = Inr self'"
  shows "(\<exists>pre. body self' = body self @ pre
            @ [''  return dbus_g_proxy_call (iface, '' @ [CHR 0x22] @ getAttribute method ''name''
                 @ [CHR 0x22] @ '', error,'',
               ''      /* in arguments */'']
            @ in_payload ttg (getElementsByTagName method ''arg'')
            @ [''      G_TYPE_INVALID,'', ''      /* out arguments */'']
            @ out_payload ttg (getElementsByTagName method ''arg'')
            @ [''      G_TYPE_INVALID);'', ''}'', '''', ''''])
       \<and> (\<forall>args p.
             in_payload ttg (map ((!) args) p)
               = map (\<lambda>i. ''      '' @ gtype_of ttg (args ! i) @ '', in_''
                            @ getAttribute (args ! i) ''name'' @ '','')
                   (filter (\<lambda>i. \<not> is_out (args ! i)) p)
             \<and> length (out_payload ttg (map ((!) args) p))
                 = length (filter (\<lambda>i. is_out (args ! i)) p)
             \<and> (\<forall>j < length (filter (\<lambda>i. is_out (args ! i)) p).
                  out_payload ttg (map ((!) args) p) ! j
                    = ''      '' @ gtype_of ttg (args ! (filter (\<lambda>i. is_out (args ! i)) p ! j))
                        @ '', '' @ out_name (filter is_out (map ((!) args) p)) j @ '','')
             \<and> ((\<forall>i \<in> set p. is_out (args ! i) \<longrightarrow> \<not> unnamed (args ! i)) \<longrightarrow>
                  out_payload ttg (map ((!) args) p)
                    = map (\<lambda>i. ''      '' @ gtype_of ttg (args ! i) @ '', out_''
                                 @ getAttribute (args ! i) ''name'' @ '','')
                        (filter (\<lambda>i. is_out (args ! i)) p)))"
proof -
  from do_method_body [OF assms] obtain member_lc where
    b: "body self' = body self
       @ [''gboolean'' @ [CHR 0x0A] @ prefix_lc self @ ''_'' @ lower iface @ ''_block_on_''
            @ member_lc @ '' (gpointer *proxy,'']
       @ map in_param (map (in_entry ttg) (in_args_of method))
       @ map out_param (out_entries ttg 0 (out_args_of method))
       @ [''    GError **error)'',
          ''{'',
          ''  DBusGProxy *iface = tp_proxy_get_interface ('',
          ''      TP_PROXY (proxy),'',
          ''      TP_IFACE_QUARK_'' @ upper (lower iface) @ '','',
          ''      error);'',
          '''',
          ''  if (iface == NULL)'',
          ''    return FALSE;'',
          '''',
          ''  return dbus_g_proxy_call (iface, '' @ [CHR 0x22] @ getAttribute method ''name''
             @ [CHR 0x22] @ '', error,'',
          ''      /* in arguments */'']
       @ map call_arg (map (in_entry ttg) (in_args_of method))
       @ [''      G_TYPE_INVALID,'', ''      /* out arguments */'']
       @ map call_arg (out_entries ttg 0 (out_args_of method))
       @ [''      G_TYPE_INVALID);'', ''}'', '''', '''']"
    by blast
  let ?pre = "[''gboolean'' @ [CHR 0x0A] @ prefix_lc self @ ''_'' @ lower iface @ ''_block_on_''
            @ member_lc @ '' (gpointer *proxy,'']
       @ map in_param (map (in_entry ttg) (in_args_of method))
       @ map out_param (out_entries ttg 0 (out_args_of method))
       @ [''    GError **error)'',
          ''{'',
          ''  DBusGProxy *iface = tp_proxy_get_interface ('',
          ''      TP_PROXY (proxy),'',
          ''      TP_IFACE_QUARK_'' @ upper (lower iface) @ '','',
          ''      error);'',
          '''',
          ''  if (iface == NULL)'',
          ''    return FALSE;'',
          '''']"
  have 1: "\<exists>pre. body self' = body self @ pre
            @ [''  return dbus_g_proxy_call (iface, '' @ [CHR 0x22] @ getAttribute method ''name''
                 @ [CHR 0x22] @ '', error,'',
               ''      /* in arguments */'']
            @ in_payload ttg (getElementsByTagName method ''arg'')
            @ [''      G_TYPE_INVALID,'', ''      /* out arguments */'']
            @ out_payload ttg (getElementsByTagName method ''arg'')
            @ [''      G_TYPE_INVALID);'', ''}'', '''', '''']"
    apply (rule exI [of _ ?pre])
    unfolding b in_payload_eq out_payload_eq
    by simp
  show ?thesis
    using 1 in_payload_reorder out_payload_length out_payload_nth out_payload_reorder_named
    by (intro conjI allI impI) blast+
qed

text \<open>
  The two named out-arguments of the sample method, swapped: their payload entries are
  swapped with them.
\<close>

theorem call_payload_order_witness:
  "do_method type_to_gtype camelcase_to_lower ''Example'' do_thing gen0
     = Inr (add_lines do_thing_h do_thing_b gen0)
   \<and> out_payload type_to_gtype (getElementsByTagName named_outs ''arg'')
       = [''      G_TYPE_INT, out_a,'', ''      G_TYPE_STRING, out_b,'']
   \<and> out_payload type_to_gtype (map ((!) (getElementsByTagName named_outs ''arg'')) [1, 0])
       = [''      G_TYPE_STRING, out_b,'', ''      G_TYPE_INT, out_a,'']"
proof -
  note h = do_method_do_thing
  let ?args = "getElementsByTagName named_outs ''arg''"
  have a: "?args = [arg_elem ''a'' ''i'' ''out'', arg_elem ''b'' ''s'' ''out'']"
    by (simp add: named_outs_def arg_elem_def)
  have n: "\<forall>i \<in> set [1, 0]. is_out (?args ! i) \<longrightarrow> \<not> unnamed (?args ! i)"
    unfolding a by (simp add: unnamed_def eval_simps)
  note t = call_payload_order [OF h, THEN conjunct2, rule_format]
  from t [of ?args "[1, 0]"] n
  have 1: "out_payload type_to_gtype (map ((!) ?args) [1, 0])
      = map (\<lambda>i. ''      '' @ gtype_of type_to_gtype (?args ! i) @ '', out_''
                    @ getAttribute (?args ! i) ''name'' @ '','')
          (filter (\<lambda>i. is_out (?args ! i)) [1, 0])"
    by blast
  have "map (\<lambda>i. ''      '' @ gtype_of type_to_gtype (?args ! i) @ '', out_''
                    @ getAttribute (?args ! i) ''name'' @ '','')
          (filter (\<lambda>i. is_out (?args ! i)) [1, 0])
       = [''      G_TYPE_STRING, out_b,'', ''      G_TYPE_INT, out_a,'']"
    unfolding a by (simp add: is_out_def gtype_of_def eval_simps)
  with 1 have 2: "out_payload type_to_gtype (map ((!) ?args) [1, 0])
       = [''      G_TYPE_STRING, out_b,'', ''      G_TYPE_INT, out_a,'']"
    by (rule trans)
  have 3: "out_payload type_to_gtype ?args
       = [''      G_TYPE_INT, out_a,'', ''      G_TYPE_STRING, out_b,'']"
    unfolding a
    by (simp add: out_payload_def out_name_def unnamed_def is_out_def gtype_of_def eval_simps
        upt_rec [of 0] upt_rec [of 1])
  show ?thesis by (rule conjI [OF h conjI [OF 3 2]])
qed

text \<open>
  Claim C3 as stated fails for unnamed out-arguments. The method \<open>two_outs_swapped\<close>
  is \<open>two_outs\<close> with its two arguments swapped; the two out-argument lines of the
  generated payload (lines 17 and 18 of the body) are not the swapped lines of
  \<open>two_outs\<close>, because \<^verbatim>\<open>out0\<close> and \<^verbatim>\<open>out1\<close> stay in place.
\<close>

theorem call_payload_permutation_counterexample:
  "getElementsByTagName two_outs_swapped ''arg'' = rev (getElementsByTagName two_outs ''arg'')
   \<and> take 2 (drop 17 (body (projr
         (do_method type_to_gtype camelcase_to_lower ''Example'' two_outs gen0))))
       = [''      G_TYPE_INT, out0,'', ''      G_TYPE_STRING, out1,'']
   \<and> take 2 (drop 17 (body (projr
         (do_method type_to_gtype camelcase_to_lower ''Example'' two_outs_swapped gen0))))
       = [''      G_TYPE_STRING, out0,'', ''      G_TYPE_INT, out1,'']
   \<and> take 2 (drop 17 (body (projr
         (do_method type_to_gtype camelcase_to_lower ''Example'' two_outs_swapped gen0))))
       \<noteq> rev (take 2 (drop 17 (body (projr
         (do_method type_to_gtype camelcase_to_lower ''Example'' two_outs gen0)))))"
proof -
  have 1: "getElementsByTagName two_outs_swapped ''arg''
      = rev (getElementsByTagName two_outs ''arg'')"
    by (simp add: two_outs_def two_outs_swapped_def arg_elem_def)
  have 2: "take 2 (drop 17 (body (projr
         (do_method type_to_gtype camelcase_to_lower ''Example'' two_outs gen0))))
       = [''      G_TYPE_INT, out0,'', ''      G_TYPE_STRING, out1,'']"
    by (simp add: two_outs_def gen_simps eval_simps)
  have 3: "take 2 (drop 17 (body (projr
         (do_method type_to_gtype camelcase_to_lower ''Example'' two_outs_swapped gen0))))
       = [''      G_TYPE_STRING, out0,'', ''      G_TYPE_INT, out1,'']"
    by (simp add: two_outs_swapped_def gen_simps eval_simps)
  have 4: "take 2 (drop 17 (body (projr
         (do_method type_to_gtype camelcase_to_lower ''Example'' two_outs_swapped gen0))))
       \<noteq> rev (take 2 (drop 17 (body (projr
         (do_method type_to_gtype camelcase_to_lower ''Example'' two_outs gen0)))))"
    unfolding 2 3 by simp
  show ?thesis by (rule conjI [OF 1 conjI [OF 2 conjI [OF 3 4]]])
qed

lemma do_method_stub:
  assumes "do_method ttg cl iface method self = Inr self'"
  shows "\<exists>member_lc.
     cl (getAttribute method ''name'') = Inr member_lc \<and>
     arg_loop ttg (getElementsByTagName method ''arg'') (0, [], [])
       = Inr (length (filter unnamed (out_args_of method)),
              map (in_entry ttg) (in_args_of method),
              out_entries ttg 0 (out_args_of method)) \<and>
     self' = emit (stub_calls (prefix_lc self) (lower iface) (getAttribute method ''name'')
                     member_lc (map (in_entry ttg) (in_args_of method))
                     (out_entries ttg 0 (out_args_of method))) self"
proof -
  obtain member_lc where m: "cl (getAttribute method ''name'') = Inr member_lc"
    using assms by (cases "cl (getAttribute method ''name'')") (simp_all add: do_method_def)
  obtain rc ins outs where
    a: "arg_loop ttg (getElementsByTagName method ''arg'') (0, [], []) = Inr (rc, ins, outs)"
    using assms m
    by (cases "arg_loop ttg (getElementsByTagName method ''arg'') (0, [], [])")
       (auto simp: do_method_def)
  from arg_loop_result [OF a]
  have r: "rc = length (filter unnamed (out_args_of method))"
    and i: "ins = map (in_entry ttg) (in_args_of method)"
    and o: "outs = out_entries ttg 0 (out_args_of method)"
    by (simp_all add: in_args_of_def out_args_of_def)
  from assms m a have "self' = emit (stub_calls (prefix_lc self) (lower iface)
      (getAttribute method ''name'') member_lc ins outs) self"
    by (simp add: do_method_def)
  with m a show ?thesis unfolding r i o by blast
qed

text \<open>
  Claim C5. \<^verbatim>\<open>do_method\<close> gives every out-argument with an empty name the resolved
  name \<^verbatim>\<open>out\<close> followed by a number; the number counts, from 0, the unnamed
  out-arguments that precede it in the same method, the counter starting anew in each
  call of \<^verbatim>\<open>do_method\<close>. These are the names in its list \<^verbatim>\<open>out_args\<close>, in the
  out-parameters of the stub it emits to the header and to the body, and in the payload
  of the call. So two unnamed out-arguments are \<^verbatim>\<open>out0\<close> and \<^verbatim>\<open>out1\<close> in the order
  of declaration, and the name of an unnamed out-argument differs from the resolved
  name of every other out-argument of the method.
\<close>

theorem unnamed_out_numbering:
  assumes "do_method ttg cl iface method self = Inr self'"
  shows "\<exists>member_lc rc ins outs pre.
     cl (getAttribute method ''name'') = Inr member_lc \<and>
     arg_loop ttg (getElementsByTagName method ''arg'') (0, [], []) = Inr (rc, ins, outs) \<and>
     rc = length (filter unnamed (out_args_of method)) \<and>
     length outs = length (out_args_of method) \<and>
     (\<forall>j < length (out_args_of method).
        fst (outs ! j) =
          (if unnamed (out_args_of method ! j)
           then ''out'' @ str_nat (length (filter unnamed (take j (out_args_of method))))
           else ''out_'' @ getAttribute (out_args_of method ! j) ''name'')) \<and>
     (\<forall>i < length (out_args_of method). \<forall>j < length (out_args_of method).
        unnamed (out_args_of method ! i) \<longrightarrow> i \<noteq> j \<longrightarrow> fst (outs ! i) \<noteq> fst (outs ! j)) \<and>
     header self' = header self
       @ [''gboolean '' @ prefix_lc self @ ''_'' @ lower iface @ ''_block_on_'' @ member_lc
            @ '' (gpointer *proxy,'']
       @ map in_param ins
       @ map (\<lambda>j. ''    '' @ ctype_of ttg (out_args_of method ! j) @ ''*''
                    @ fst (outs ! j) @ '','') [0..<length (out_args_of method)]
       @ [''    GError **error);'', '''', ''''] \<and>
     body self' = body self
       @ [''gboolean'' @ [CHR 0x0A] @ prefix_lc self @ ''_'' @ lower iface @ ''_block_on_''
            @ member_lc @ '' (gpointer *proxy,'']
       @ map in_param ins
       @ map (\<lambda>j. ''    '' @ ctype_of ttg (out_args_of method ! j) @ ''*''
                    @ fst (outs ! j) @ '','') [0..<length (out_args_of method)]
       @ pre
       @ [''      /* out arguments */'']
       @ map (\<lambda>j. ''      '' @ gtype_of ttg (out_args_of method ! j) @ '', ''
                    @ fst (outs ! j) @ '','') [0..<length (out_args_of method)]
       @ [''      G_TYPE_INVALID);'', ''}'', '''', '''']"
proof -
  let ?os = "out_args_of method"
  let ?ins = "map (in_entry ttg) (in_args_of method)"
  let ?outs = "out_entries ttg 0 ?os"
  from do_method_stub [OF assms] obtain member_lc where
    m: "cl (getAttribute method ''name'') = Inr member_lc" and
    a: "arg_loop ttg (getElementsByTagName method ''arg'') (0, [], [])
       = Inr (length (filter unnamed ?os), ?ins, ?outs)" and
    s: "self' = emit (stub_calls (prefix_lc self) (lower iface) (getAttribute method ''name'')
                     member_lc ?ins ?outs) self"
    by blast
  have n: "fst (?outs ! j) = out_name ?os j" if "j < length ?os" for j
    using that by (simp add: out_entries_nth out_entry_def out_name_def)
  have n': "\<forall>j < length ?os. fst (?outs ! j) =
          (if unnamed (?os ! j) then ''out'' @ str_nat (length (filter unnamed (take j ?os)))
           else ''out_'' @ getAttribute (?os ! j) ''name'')"
    using n by (simp add: out_name_def)
  have d: "\<forall>i < length ?os. \<forall>j < length ?os.
        unnamed (?os ! i) \<longrightarrow> i \<noteq> j \<longrightarrow> fst (?outs ! i) \<noteq> fst (?outs ! j)"
    using n out_name_other by simp
  have op: "map out_param ?outs
      = map (\<lambda>j. ''    '' @ ctype_of ttg (?os ! j) @ ''*'' @ fst (?outs ! j) @ '','')
          [0..<length ?os]"
    unfolding out_param_lines using n by simp
  have oc: "map call_arg ?outs
      = map (\<lambda>j. ''      '' @ gtype_of ttg (?os ! j) @ '', '' @ fst (?outs ! j) @ '','')
          [0..<length ?os]"
    unfolding call_arg_out_lines using n by simp
  let ?pre = "[''    GError **error)'',
          ''{'',
          ''  DBusGProxy *iface = tp_proxy_get_interface ('',
          ''      TP_PROXY (proxy),'',
          ''      TP_IFACE_QUARK_'' @ upper (lower iface) @ '','',
          ''      error);'',
          '''',
          ''  if (iface == NULL)'',
          ''    return FALSE;'',
          '''',
          ''  return dbus_g_proxy_call (iface, '' @ [CHR 0x22] @ getAttribute method ''name''
             @ [CHR 0x22] @ '', error,'',
          ''      /* in arguments */'']
       @ map call_arg ?ins
       @ [''      G_TYPE_INVALID,'']"
  have h: "header self' = header self
       @ [''gboolean '' @ prefix_lc self @ ''_'' @ lower iface @ ''_block_on_'' @ member_lc
            @ '' (gpointer *proxy,'']
       @ map in_param ?ins
       @ map (\<lambda>j. ''    '' @ ctype_of ttg (?os ! j) @ ''*'' @ fst (?outs ! j) @ '','')
           [0..<length ?os]
       @ [''    GError **error);'', '''', '''']"
    unfolding s op [symmetric] by (simp add: emit_eq h_lines_stub)
  have b: "body self' = body self
       @ [''gboolean'' @ [CHR 0x0A] @ prefix_lc self @ ''_'' @ lower iface @ ''_block_on_''
            @ member_lc @ '' (gpointer *proxy,'']
       @ map in_param ?ins
       @ map (\<lambda>j. ''    '' @ ctype_of ttg (?os ! j) @ ''*'' @ fst (?outs ! j) @ '','')
           [0..<length ?os]
       @ ?pre
       @ [''      /* out arguments */'']
       @ map (\<lambda>j. ''      '' @ gtype_of ttg (?os ! j) @ '', '' @ fst (?outs ! j) @ '','')
           [0..<length ?os]
       @ [''      G_TYPE_INVALID);'', ''}'', '''', '''']"
    unfolding s op [symmetric] oc [symmetric] by (simp add: emit_eq b_lines_stub)
  have l: "length ?outs = length ?os" by simp
  show ?thesis
    apply (rule exI [of _ member_lc])
    apply (rule exI [of _ "length (filter unnamed ?os)"])
    apply (rule exI [of _ ?ins])
    apply (rule exI [of _ ?outs])
    apply (rule exI [of _ ?pre])
    using m a l n' d h b by (intro conjI) (rule refl | assumption)+
qed

lemma map_by_index: "map f xs = map (\<lambda>k. f (xs ! k)) [0..<length xs]"
  by (rule nth_equalityI) simp_all

text \<open>The method with two unnamed out-arguments: they are \<^verbatim>\<open>out0\<close> and \<^verbatim>\<open>out1\<close>.\<close>

theorem unnamed_out_numbering_witness:
  "do_method type_to_gtype camelcase_to_lower ''Example'' two_outs gen0
     = Inr (emit (stub_calls ''prefix'' ''example'' ''GetPair'' ''get_pair'' []
                    [(''out0'', (''int32 '', ''G_TYPE_INT'', ''INT'', False), ''''),
                     (''out1'', (''char *'', ''G_TYPE_STRING'', ''STRING'', True), '''')]) gen0)
   \<and> header (emit (stub_calls ''prefix'' ''example'' ''GetPair'' ''get_pair'' []
                    [(''out0'', (''int32 '', ''G_TYPE_INT'', ''INT'', False), ''''),
                     (''out1'', (''char *'', ''G_TYPE_STRING'', ''STRING'', True), '''')]) gen0)
       = [''gboolean prefix_example_block_on_get_pair (gpointer *proxy,'',
          ''    int32 *out0,'',
          ''    char **out1,'',
          ''    GError **error);'',
          '''',
          '''']"
proof -
  let ?outs = "[(''out0'', (''int32 '', ''G_TYPE_INT'', ''INT'', False), ''''),
                (''out1'', (''char *'', ''G_TYPE_STRING'', ''STRING'', True), '''')]"
  let ?g = "emit (stub_calls ''prefix'' ''example'' ''GetPair'' ''get_pair'' [] ?outs) gen0"
  have h: "do_method type_to_gtype camelcase_to_lower ''Example'' two_outs gen0 = Inr ?g"
    by (simp add: do_method_def two_outs_def gen0_def Generator_init_def eval_simps)
  have o: "out_args_of two_outs = [arg_elem '''' ''i'' ''out'', arg_elem '''' ''s'' ''out'']"
    by (simp add: out_args_of_def two_outs_def is_out_def eval_simps)
  from unnamed_out_numbering [OF h] obtain member_lc rc ins outs where
    m: "camelcase_to_lower (getAttribute two_outs ''name'') = Inr member_lc" and
    a: "arg_loop type_to_gtype (getElementsByTagName two_outs ''arg'') (0, [], [])
          = Inr (rc, ins, outs)" and
    e: "header ?g = header gen0
       @ [''gboolean '' @ prefix_lc gen0 @ ''_'' @ lower ''Example'' @ ''_block_on_'' @ member_lc
            @ '' (gpointer *proxy,'']
       @ map in_param ins
       @ map (\<lambda>j. ''    '' @ ctype_of type_to_gtype (out_args_of two_outs ! j) @ ''*''
                    @ fst (outs ! j) @ '','') [0..<length (out_args_of two_outs)]
       @ [''    GError **error);'', '''', '''']"
    by blast
  from m have m': "member_lc = ''get_pair''" by (simp add: two_outs_def eval_simps)
  from a have i': "ins = []" and o': "outs = ?outs"
    by (simp_all add: two_outs_def eval_simps)
  have c: "header ?g
       = [''gboolean prefix_example_block_on_get_pair (gpointer *proxy,'',
          ''    int32 *out0,'',
          ''    char **out1,'',
          ''    GError **error);'',
          '''',
          '''']"
    unfolding e m' i' o' o
    by (simp add: gen0_def Generator_init_def ctype_of_def eval_simps upt_rec [of 0] upt_rec [of 1])
  show ?thesis by (rule conjI [OF h c])
qed

text \<open>
  Claim C10. \<^verbatim>\<open>do_method\<close> gives every in-argument the resolved name \<^verbatim>\<open>in_\<close>
  followed by its raw name, also when the raw name is empty. These are the names in
  its list \<^verbatim>\<open>in_args\<close>, in the in-parameters of the stub it emits to the header and
  to the body, and in the payload of the call. So all unnamed in-arguments of a method
  get the same resolved name \<^verbatim>\<open>in_\<close>: only unnamed out-arguments are numbered.
\<close>

theorem unnamed_in_args_collide:
  assumes "do_method ttg cl iface method self = Inr self'"
  shows "\<exists>member_lc rc ins outs pre post.
     cl (getAttribute method ''name'') = Inr member_lc \<and>
     arg_loop ttg (getElementsByTagName method ''arg'') (0, [], []) = Inr (rc, ins, outs) \<and>
     map fst ins = map (\<lambda>a. ''in_'' @ getAttribute a ''name'') (in_args_of method) \<and>
     length (filter (\<lambda>n. n = ''in_'') (map fst ins))
       = length (filter unnamed (in_args_of method)) \<and>
     header self' = header self
       @ [''gboolean '' @ prefix_lc self @ ''_'' @ lower iface @ ''_block_on_'' @ member_lc
            @ '' (gpointer *proxy,'']
       @ map (\<lambda>k. ''    '' @ (if pointer_of ttg (in_args_of method ! k) then ''const '' else '''')
                    @ ctype_of ttg (in_args_of method ! k) @ fst (ins ! k) @ '','')
           [0..<length (in_args_of method)]
       @ map out_param outs
       @ [''    GError **error);'', '''', ''''] \<and>
     body self' = body self
       @ [''gboolean'' @ [CHR 0x0A] @ prefix_lc self @ ''_'' @ lower iface @ ''_block_on_''
            @ member_lc @ '' (gpointer *proxy,'']
       @ map (\<lambda>k. ''    '' @ (if pointer_of ttg (in_args_of method ! k) then ''const '' else '''')
                    @ ctype_of ttg (in_args_of method ! k) @ fst (ins ! k) @ '','')
           [0..<length (in_args_of method)]
       @ map out_param outs
       @ pre
       @ [''      /* in arguments */'']
       @ map (\<lambda>k. ''      '' @ gtype_of ttg (in_args_of method ! k) @ '', '' @ fst (ins ! k) @ '','')
           [0..<length (in_args_of method)]
       @ [''      G_TYPE_INVALID,'']
       @ post"
proof -
  let ?is = "in_args_of method"
  let ?ins = "map (in_entry ttg) ?is"
  let ?outs = "out_entries ttg 0 (out_args_of method)"
  from do_method_stub [OF assms] obtain member_lc where
    m: "cl (getAttribute method ''name'') = Inr member_lc" and
    a: "arg_loop ttg (getElementsByTagName method ''arg'') (0, [], [])
       = Inr (length (filter unnamed (out_args_of method)), ?ins, ?outs)" and
    s: "self' = emit (stub_calls (prefix_lc self) (lower iface) (getAttribute method ''name'')
                     member_lc ?ins ?outs) self"
    by blast
  have n: "map fst ?ins = map (\<lambda>a. ''in_'' @ getAttribute a ''name'') ?is"
    by (simp add: in_entry_def comp_def)
  have "filter (\<lambda>n. n = ''in_'') (map (\<lambda>a. ''in_'' @ getAttribute a ''name'') xs)
          = map (\<lambda>a. ''in_'' @ getAttribute a ''name'') (filter unnamed xs)" for xs
    by (induction xs) (simp_all add: unnamed_def)
  then have c: "length (filter (\<lambda>n. n = ''in_'') (map fst ?ins)) = length (filter unnamed ?is)"
    unfolding n by simp
  have ip: "map in_param ?ins
      = map (\<lambda>k. ''    '' @ (if pointer_of ttg (?is ! k) then ''const '' else '''')
                    @ ctype_of ttg (?is ! k) @ fst (?ins ! k) @ '','') [0..<length ?is]"
    by (subst map_by_index)
       (simp add: in_param_def in_entry_def pointer_of_def ctype_of_def split: prod.splits)
  have ic: "map call_arg ?ins
      = map (\<lambda>k. ''      '' @ gtype_of ttg (?is ! k) @ '', '' @ fst (?ins ! k) @ '','')
          [0..<length ?is]"
    by (subst map_by_index)
       (simp add: call_arg_def in_entry_def gtype_of_def split: prod.splits)
  let ?pre = "[''    GError **error)'',
          ''{'',
          ''  DBusGProxy *iface = tp_proxy_get_interface ('',
          ''      TP_PROXY (proxy),'',
          ''      TP_IFACE_QUARK_'' @ upper (lower iface) @ '','',
          ''      error);'',
          '''',
          ''  if (iface == NULL)'',
          ''    return FALSE;'',
          '''',
          ''  return dbus_g_proxy_call (iface, '' @ [CHR 0x22] @ getAttribute method ''name''
             @ [CHR 0x22] @ '', error,'']"
  let ?post = "[''      /* out arguments */''] @ map call_arg ?outs
       @ [''      G_TYPE_INVALID);'', ''}'', '''', '''']"
  have h: "header self' = header self
       @ [''gboolean '' @ prefix_lc self @ ''_'' @ lower iface @ ''_block_on_'' @ member_lc
            @ '' (gpointer *proxy,'']
       @ map (\<lambda>k. ''    '' @ (if pointer_of ttg (?is ! k) then ''const '' else '''')
                    @ ctype_of ttg (?is ! k) @ fst (?ins ! k) @ '','') [0..<length ?is]
       @ map out_param ?outs
       @ [''    GError **error);'', '''', '''']"
    unfolding s ip [symmetric] by (simp add: emit_eq h_lines_stub)
  have b: "body self' = body self
       @ [''gboolean'' @ [CHR 0x0A] @ prefix_lc self @ ''_'' @ lower iface @ ''_block_on_''
            @ member_lc @ '' (gpointer *proxy,'']
       @ map (\<lambda>k. ''    '' @ (if pointer_of ttg (?is ! k) then ''const '' else '''')
                    @ ctype_of ttg (?is ! k) @ fst (?ins ! k) @ '','') [0..<length ?is]
       @ map out_param ?outs
       @ ?pre
       @ [''      /* in arguments */'']
       @ map (\<lambda>k. ''      '' @ gtype_of ttg (?is ! k) @ '', '' @ fst (?ins ! k) @ '','')
           [0..<length ?is]
       @ [''      G_TYPE_INVALID,'']
       @ ?post"
    unfolding s ip [symmetric] ic [symmetric] by (simp add: emit_eq b_lines_stub)
  show ?thesis
    apply (rule exI [of _ member_lc])
    apply (rule exI [of _ "length (filter unnamed (out_args_of method))"])
    apply (rule exI [of _ ?ins])
    apply (rule exI [of _ ?outs])
    apply (rule exI [of _ ?pre])
    apply (rule exI [of _ ?post])
    using m a n c h b by (intro conjI) (rule refl | assumption)+
qed

text \<open>The method with two unnamed in-arguments: both are \<^verbatim>\<open>in_\<close>.\<close>

theorem unnamed_in_args_collide_witness:
  "do_method type_to_gtype camelcase_to_lower ''Example'' two_ins gen0
     = Inr (emit (stub_calls ''prefix'' ''example'' ''SetPair'' ''set_pair''
                    [(''in_'', (''int32 '', ''G_TYPE_INT'', ''INT'', False), ''''),
                     (''in_'', (''char *'', ''G_TYPE_STRING'', ''STRING'', True), '''')] []) gen0)
   \<and> length (filter unnamed (in_args_of two_ins)) = 2
   \<and> header (emit (stub_calls ''prefix'' ''example'' ''SetPair'' ''set_pair''
                    [(''in_'', (''int32 '', ''G_TYPE_INT'', ''INT'', False), ''''),
                     (''in_'', (''char *'', ''G_TYPE_STRING'', ''STRING'', True), '''')] []) gen0)
       = [''gboolean prefix_example_block_on_set_pair (gpointer *proxy,'',
          ''    int32 in_,'',
          ''    const char *in_,'',
          ''    GError **error);'',
          '''',
          '''']"
proof -
  let ?ins = "[(''in_'', (''int32 '', ''G_TYPE_INT'', ''INT'', False), ''''),
               (''in_'', (''char *'', ''G_TYPE_STRING'', ''STRING'', True), '''')]"
  let ?g = "emit (stub_calls ''prefix'' ''example'' ''SetPair'' ''set_pair'' ?ins []) gen0"
  have h: "do_method type_to_gtype camelcase_to_lower ''Example'' two_ins gen0 = Inr ?g"
    by (simp add: do_method_def two_ins_def gen0_def Generator_init_def eval_simps)
  have i: "in_args_of two_ins = [Element ''arg'' [(''type'', ''i'')] [], arg_elem '''' ''s'' ''in'']"
    by (simp add: in_args_of_def two_ins_def is_out_def eval_simps)
  from unnamed_in_args_collide [OF h] obtain member_lc rc ins outs where
    m: "camelcase_to_lower (getAttribute two_ins ''name'') = Inr member_lc" and
    a: "arg_loop type_to_gtype (getElementsByTagName two_ins ''arg'') (0, [], [])
          = Inr (rc, ins, outs)" and
    c: "length (filter (\<lambda>n. n = ''in_'') (map fst ins))
          = length (filter unnamed (in_args_of two_ins))" and
    e: "header ?g = header gen0
       @ [''gboolean '' @ prefix_lc gen0 @ ''_'' @ lower ''Example'' @ ''_block_on_'' @ member_lc
            @ '' (gpointer *proxy,'']
       @ map (\<lambda>k. ''    '' @ (if pointer_of type_to_gtype (in_args_of two_ins ! k)
                              then ''const '' else '''')
                    @ ctype_of type_to_gtype (in_args_of two_ins ! k) @ fst (ins ! k) @ '','')
           [0..<length (in_args_of two_ins)]
       @ map out_param outs
       @ [''    GError **error);'', '''', '''']"
    by blast
  from m have m': "member_lc = ''set_pair''" by (simp add: two_ins_def eval_simps)
  from a have i': "ins = ?ins" and o': "outs = []"
    by (simp_all add: two_ins_def eval_simps)
  from c have u: "length (filter unnamed (in_args_of two_ins)) = 2"
    unfolding i' by simp
  have l: "header ?g
       = [''gboolean prefix_example_block_on_set_pair (gpointer *proxy,'',
          ''    int32 in_,'',
          ''    const char *in_,'',
          ''    GError **error);'',
          '''',
          '''']"
    unfolding e m' i' o' i
    by (simp add: gen0_def Generator_init_def ctype_of_def pointer_of_def eval_simps
        upt_rec [of 0] upt_rec [of 1])
  show ?thesis by (rule conjI [OF h conjI [OF u l]])
qed

lemma parameter_lines:
  assumes "do_method ttg cl iface method self = Inr self'"
  shows "\<exists>member_lc.
     cl (getAttribute method ''name'') = Inr member_lc \<and>
     header self' = header self
       @ [''gboolean '' @ prefix_lc self @ ''_'' @ lower iface @ ''_block_on_'' @ member_lc
            @ '' (gpointer *proxy,'']
       @ map (\<lambda>a. ''    '' @ (if pointer_of ttg a then ''const '' else '''') @ ctype_of ttg a
                    @ ''in_'' @ getAttribute a ''name'' @ '','') (in_args_of method)
       @ map (\<lambda>j. ''    '' @ ctype_of ttg (out_args_of method ! j) @ ''*''
                    @ out_name (out_args_of method) j @ '','') [0..<length (out_args_of method)]
       @ [''    GError **error);'', '''', '''']"
proof -
  from do_method_lines [OF assms] obtain member_lc where
    m: "cl (getAttribute method ''name'') = Inr member_lc" and
    h: "header self' = header self
       @ h_lines (stub_calls (prefix_lc self) (lower iface) (getAttribute method ''name'')
                     member_lc (map (in_entry ttg) (in_args_of method))
                     (out_entries ttg 0 (out_args_of method)))"
    by blast
  show ?thesis
    apply (rule exI [of _ member_lc])
    unfolding h h_lines_stub in_param_lines out_param_lines
    using m by simp
qed

lemma payload_lines:
  assumes "do_method ttg cl iface method self = Inr self'"
  shows "\<exists>pre. body self' = body self @ pre
            @ [''  return dbus_g_proxy_call (iface, '' @ [CHR 0x22] @ getAttribute method ''name''
                 @ [CHR 0x22] @ '', error,'',
               ''      /* in arguments */'']
            @ in_payload ttg (getElementsByTagName method ''arg'')
            @ [''      G_TYPE_INVALID,'', ''      /* out arguments */'']
            @ out_payload ttg (getElementsByTagName method ''arg'')
            @ [''      G_TYPE_INVALID);'', ''}'', '''', '''']"
proof -
  from do_method_lines [OF assms] obtain member_lc where
    b: "body self' = body self
       @ b_lines (stub_calls (prefix_lc self) (lower iface) (getAttribute method ''name'')
                     member_lc (map (in_entry ttg) (in_args_of method))
                     (out_entries ttg 0 (out_args_of method)))"
    by blast
  let ?pre = "[''gboolean'' @ [CHR 0x0A] @ prefix_lc self @ ''_'' @ lower iface @ ''_block_on_''
            @ member_lc @ '' (gpointer *proxy,'']
       @ map in_param (map (in_entry ttg) (in_args_of method))
       @ map out_param (out_entries ttg 0 (out_args_of method))
       @ [''    GError **error)'',
          ''{'',
          ''  DBusGProxy *iface = tp_proxy_get_interface ('',
          ''      TP_PROXY (proxy),'',
          ''      TP_IFACE_QUARK_'' @ upper (lower iface) @ '','',
          ''      error);'',
          '''',
          ''  if (iface == NULL)'',
          ''    return FALSE;'',
          '''']"
  show ?thesis
    apply (rule exI [of _ ?pre])
    unfolding b b_lines_stub in_payload_eq out_payload_eq
    by simp
qed

text \<open>
  Claim C9. \<^verbatim>\<open>do_method\<close> takes an argument of a method for an out-argument if and
  only if its \<^verbatim>\<open>direction\<close> attribute is the string \<^verbatim>\<open>out\<close>: exactly these arguments
  are the out-parameters of the stub it emits and come after the first sentinel in the
  payload of the call. An argument with any other value is an in-parameter and comes
  before the first sentinel; so does an argument without the attribute, which reads as
  the empty string, and no error is raised for it: when the helpers return, so does
  \<^verbatim>\<open>do_method\<close>.
\<close>

theorem direction_classification:
  assumes "\<forall>a \<in> set (getElementsByTagName method ''arg'').
             \<exists>info. ttg (getAttribute a ''type'') = Inr info"
    and "cl (getAttribute method ''name'') = Inr member_lc"
  shows "\<exists>self'.
     do_method ttg cl iface method self = Inr self' \<and>
     header self' = header self
       @ [''gboolean '' @ prefix_lc self @ ''_'' @ lower iface @ ''_block_on_'' @ member_lc
            @ '' (gpointer *proxy,'']
       @ map (\<lambda>a. ''    '' @ (if pointer_of ttg a then ''const '' else '''') @ ctype_of ttg a
                    @ ''in_'' @ getAttribute a ''name'' @ '','')
           (filter (\<lambda>a. getAttribute a ''direction'' \<noteq> ''out'')
              (getElementsByTagName method ''arg''))
       @ map (\<lambda>j. ''    ''
                    @ ctype_of ttg (filter (\<lambda>a. getAttribute a ''direction'' = ''out'')
                                      (getElementsByTagName method ''arg'') ! j)
                    @ ''*''
                    @ out_name (filter (\<lambda>a. getAttribute a ''direction'' = ''out'')
                                  (getElementsByTagName method ''arg'')) j
                    @ '','')
           [0..<length (filter (\<lambda>a. getAttribute a ''direction'' = ''out'')
                          (getElementsByTagName method ''arg''))]
       @ [''    GError **error);'', '''', ''''] \<and>
     (\<exists>pre. body self' = body self @ pre
       @ [''  return dbus_g_proxy_call (iface, '' @ [CHR 0x22] @ getAttribute method ''name''
            @ [CHR 0x22] @ '', error,'',
          ''      /* in arguments */'']
       @ map (\<lambda>a. ''      '' @ gtype_of ttg a @ '', in_'' @ getAttribute a ''name'' @ '','')
           (filter (\<lambda>a. getAttribute a ''direction'' \<noteq> ''out'')
              (getElementsByTagName method ''arg''))
       @ [''      G_TYPE_INVALID,'', ''      /* out arguments */'']
       @ map (\<lambda>j. ''      ''
                    @ gtype_of ttg (filter (\<lambda>a. getAttribute a ''direction'' = ''out'')
                                      (getElementsByTagName method ''arg'') ! j)
                    @ '', ''
                    @ out_name (filter (\<lambda>a. getAttribute a ''direction'' = ''out'')
                                  (getElementsByTagName method ''arg'')) j
                    @ '','')
           [0..<length (filter (\<lambda>a. getAttribute a ''direction'' = ''out'')
                          (getElementsByTagName method ''arg''))]
       @ [''      G_TYPE_INVALID);'', ''}'', '''', '''']) \<and>
     (\<forall>a \<in> set (getElementsByTagName method ''arg'').
        map_of (attributes a) ''direction'' = None \<longrightarrow>
          a \<in> set (filter (\<lambda>a. getAttribute a ''direction'' \<noteq> ''out'')
                     (getElementsByTagName method ''arg'')))"
proof -
  let ?args = "getElementsByTagName method ''arg''"
  from assms(1) have "\<exists>r. arg_loop ttg ?args (0, [], []) = Inr r"
    by (intro arg_loop_total) blast
  then obtain rc ins outs where a: "arg_loop ttg ?args (0, [], []) = Inr (rc, ins, outs)"
    by (metis prod_cases3)
  then obtain self' where d: "do_method ttg cl iface method self = Inr self'"
    using assms(2) by (simp add: do_method_def)
  have io: "in_args_of method = filter (\<lambda>a. getAttribute a ''direction'' \<noteq> ''out'') ?args"
    "out_args_of method = filter (\<lambda>a. getAttribute a ''direction'' = ''out'') ?args"
    by (simp_all add: in_args_of_def out_args_of_def is_out_def [abs_def])
  from parameter_lines [OF d] assms(2)
  have h: "header self' = header self
       @ [''gboolean '' @ prefix_lc self @ ''_'' @ lower iface @ ''_block_on_'' @ member_lc
            @ '' (gpointer *proxy,'']
       @ map (\<lambda>a. ''    '' @ (if pointer_of ttg a then ''const '' else '''') @ ctype_of ttg a
                    @ ''in_'' @ getAttribute a ''name'' @ '','') (in_args_of method)
       @ map (\<lambda>j. ''    '' @ ctype_of ttg (out_args_of method ! j) @ ''*''
                    @ out_name (out_args_of method) j @ '','') [0..<length (out_args_of method)]
       @ [''    GError **error);'', '''', '''']"
    by auto
  from payload_lines [OF d]
  have b: "\<exists>pre. body self' = body self @ pre
            @ [''  return dbus_g_proxy_call (iface, '' @ [CHR 0x22] @ getAttribute method ''name''
                 @ [CHR 0x22] @ '', error,'',
               ''      /* in arguments */'']
            @ in_payload ttg ?args
            @ [''      G_TYPE_INVALID,'', ''      /* out arguments */'']
            @ out_payload ttg ?args
            @ [''      G_TYPE_INVALID);'', ''}'', '''', '''']" .
  have x: "x \<in> set (filter (\<lambda>a. getAttribute a ''direction'' \<noteq> ''out'') ?args)"
    if "x \<in> set ?args" "map_of (attributes x) ''direction'' = None" for x
  proof -
    from that(2) have "getAttribute x ''direction'' \<noteq> ''out''"
      by (simp add: getAttribute_def)
    with that(1) show ?thesis by simp
  qed
  show ?thesis
    apply (rule exI [of _ self'])
    using d h [unfolded io] b [unfolded in_payload_def out_payload_def is_out_def [abs_def]] x
    by (intro conjI) (assumption | blast)+
qed

text \<open>
  The method with the directions none, \<^verbatim>\<open>in\<close>, \<^verbatim>\<open>OUT\<close> and \<^verbatim>\<open>out\<close>: the first three
  arguments are in-parameters, the last is the out-parameter.
\<close>

theorem direction_classification_witness:
  "camelcase_to_lower (getAttribute mixed_dirs ''name'') = Inr ''mixed''
   \<and> map (\<lambda>a. (map_of (attributes a) ''direction'', getAttribute a ''direction''))
         (getElementsByTagName mixed_dirs ''arg'')
       = [(None, ''''), (Some ''in'', ''in''), (Some ''OUT'', ''OUT''), (Some ''out'', ''out'')]
   \<and> do_method type_to_gtype camelcase_to_lower ''Example'' mixed_dirs gen0
       = Inr (emit (stub_calls ''prefix'' ''example'' ''Mixed'' ''mixed''
                      [(''in_a'', (''int32 '', ''G_TYPE_INT'', ''INT'', False), ''''),
                       (''in_b'', (''char *'', ''G_TYPE_STRING'', ''STRING'', True), ''''),
                       (''in_c'', (''int32 '', ''G_TYPE_INT'', ''INT'', False), '''')]
                      [(''out_d'', (''char *'', ''G_TYPE_STRING'', ''STRING'', True), '''')])
                gen0)
   \<and> header (projr (do_method type_to_gtype camelcase_to_lower ''Example'' mixed_dirs gen0))
       = [''gboolean prefix_example_block_on_mixed (gpointer *proxy,'',
          ''    int32 in_a,'',
          ''    const char *in_b,'',
          ''    int32 in_c,'',
          ''    char **out_d,'',
          ''    GError **error);'',
          '''',
          '''']"
proof -
  let ?args = "getElementsByTagName mixed_dirs ''arg''"
  have args: "?args = [Element ''arg'' [(''name'', ''a''), (''type'', ''i'')] [],
      arg_elem ''b'' ''s'' ''in'', arg_elem ''c'' ''i'' ''OUT'', arg_elem ''d'' ''s'' ''out'']"
    by (simp add: mixed_dirs_def arg_elem_def)
  have h1: "\<forall>a \<in> set ?args. \<exists>info. type_to_gtype (getAttribute a ''type'') = Inr info"
    unfolding args by (auto simp: eval_simps)
  have h2: "camelcase_to_lower (getAttribute mixed_dirs ''name'') = Inr ''mixed''"
    by (simp add: mixed_dirs_def eval_simps)
  have dirs: "map (\<lambda>a. (map_of (attributes a) ''direction'', getAttribute a ''direction'')) ?args
       = [(None, ''''), (Some ''in'', ''in''), (Some ''OUT'', ''OUT''), (Some ''out'', ''out'')]"
    unfolding args by (simp add: eval_simps)
  have ev: "do_method type_to_gtype camelcase_to_lower ''Example'' mixed_dirs gen0
       = Inr (emit (stub_calls ''prefix'' ''example'' ''Mixed'' ''mixed''
                      [(''in_a'', (''int32 '', ''G_TYPE_INT'', ''INT'', False), ''''),
                       (''in_b'', (''char *'', ''G_TYPE_STRING'', ''STRING'', True), ''''),
                       (''in_c'', (''int32 '', ''G_TYPE_INT'', ''INT'', False), '''')]
                      [(''out_d'', (''char *'', ''G_TYPE_STRING'', ''STRING'', True), '''')])
                gen0)"
    by (simp add: do_method_def mixed_dirs_def gen0_def Generator_init_def eval_simps)
  have fi: "filter (\<lambda>a. getAttribute a ''direction'' \<noteq> ''out'') ?args
      = [Element ''arg'' [(''name'', ''a''), (''type'', ''i'')] [],
         arg_elem ''b'' ''s'' ''in'', arg_elem ''c'' ''i'' ''OUT'']"
    and fo: "filter (\<lambda>a. getAttribute a ''direction'' = ''out'') ?args
      = [arg_elem ''d'' ''s'' ''out'']"
    unfolding args by (simp_all add: eval_simps)
  from direction_classification [of mixed_dirs type_to_gtype camelcase_to_lower "''mixed''"
      "''Example''" gen0, OF h1 h2]
  obtain self' where
    d: "do_method type_to_gtype camelcase_to_lower ''Example'' mixed_dirs gen0 = Inr self'" and
    e: "header self' = header gen0
       @ [''gboolean '' @ prefix_lc gen0 @ ''_'' @ lower ''Example'' @ ''_block_on_'' @ ''mixed''
            @ '' (gpointer *proxy,'']
       @ map (\<lambda>a. ''    '' @ (if pointer_of type_to_gtype a then ''const '' else '''')
                    @ ctype_of type_to_gtype a @ ''in_'' @ getAttribute a ''name'' @ '','')
           (filter (\<lambda>a. getAttribute a ''direction'' \<noteq> ''out'') ?args)
       @ map (\<lambda>j. ''    ''
                    @ ctype_of type_to_gtype
                        (filter (\<lambda>a. getAttribute a ''direction'' = ''out'') ?args ! j)
                    @ ''*''
                    @ out_name (filter (\<lambda>a. getAttribute a ''direction'' = ''out'') ?args) j
                    @ '','')
           [0..<length (filter (\<lambda>a. getAttribute a ''direction'' = ''out'') ?args)]
       @ [''    GError **error);'', '''', '''']"
    by blast
  have c: "header (projr (do_method type_to_gtype camelcase_to_lower ''Example'' mixed_dirs gen0))
       = [''gboolean prefix_example_block_on_mixed (gpointer *proxy,'',
          ''    int32 in_a,'',
          ''    const char *in_b,'',
          ''    int32 in_c,'',
          ''    char **out_d,'',
          ''    GError **error);'',
          '''',
          '''']"
    unfolding d sum.sel e fi fo
    by (simp add: gen0_def Generator_init_def ctype_of_def pointer_of_def out_name_def unnamed_def
        eval_simps)
  show ?thesis by (rule conjI [OF h2 conjI [OF dirs conjI [OF ev c]]])
qed

lemma no_static_h_stub:
  "''static inline void'' \<notin> set (h_lines (stub_calls p i m ml ins outs))"
  by (auto simp: h_lines_stub in_param_def out_param_def split: prod.splits)

lemma no_static_b_stub:
  "''static inline void'' \<notin> set (b_lines (stub_calls p i m ml ins outs))"
  by (auto simp: b_lines_stub in_param_def out_param_def call_arg_def split: prod.splits)

lemma no_static_signal: "''static inline void'' \<notin> set (signal_lines ttg s)"
  by (auto simp: signal_lines_def)

lemma no_static_name: "p @ ''_add_signals_for_'' @ n @ '' (DBusGProxy *proxy)'' \<noteq> ''static inline void''"
proof
  assume "p @ ''_add_signals_for_'' @ n @ '' (DBusGProxy *proxy)'' = ''static inline void''"
  then have "set (p @ ''_add_signals_for_'' @ n @ '' (DBusGProxy *proxy)'') = set ''static inline void''"
    by (rule arg_cong)
  moreover have "CHR ''_'' \<in> set (p @ ''_add_signals_for_'' @ n @ '' (DBusGProxy *proxy)'')"
    by simp
  moreover have "CHR ''_'' \<notin> set ''static inline void''"
    by simp
  ultimately show False by blast
qed

lemma filter_none: "(\<And>x. x \<in> set xs \<Longrightarrow> \<not> P x) \<Longrightarrow> filter P xs = []"
  by (induction xs) auto

text \<open>
  Claim C8, as amended. For every interface, \<^verbatim>\<open>do_interface\<close> adds to the header one
  \<^verbatim>\<open>static inline\<close> function that, for every signal of the interface in order, calls
  \<^verbatim>\<open>dbus_g_proxy_add_signal\<close> with the name of the signal and the GTypes of its
  arguments in order, ended by \<^verbatim>\<open>G_TYPE_INVALID\<close>. The function goes to the header
  only: the body gets the stubs of the methods and nothing else.
\<close>

theorem signal_registration_block:
  assumes "do_interface ttg cl node self = Inr self'"
  shows "header self' = header self
           @ [''static inline void'',
              prefix_lc self @ ''_add_signals_for_'' @ lower (interface_name node)
                @ '' (DBusGProxy *proxy)'',
              ''{'']
           @ concat (map (\<lambda>signal.
                 [''  dbus_g_proxy_add_signal (proxy, '' @ [CHR 0x22]
                    @ getAttribute signal ''name'' @ [CHR 0x22] @ '','']
                 @ map (\<lambda>a. ''      '' @ gtype_of ttg a @ '','')
                     (getElementsByTagName signal ''arg'')
                 @ [''      G_TYPE_INVALID);''])
               (getElementsByTagName node ''signal''))
           @ [''}'', '''', '''']
           @ concat (map (\<lambda>m. h_lines (method_calls (prefix_lc self) ttg cl
                                              (interface_name node) m))
               (getElementsByTagName node ''method''))
       \<and> body self' = body self
           @ concat (map (\<lambda>m. b_lines (method_calls (prefix_lc self) ttg cl
                                              (interface_name node) m))
               (getElementsByTagName node ''method''))
       \<and> length (filter (\<lambda>l. l = ''static inline void'')
                   (drop (length (header self)) (header self'))) = 1
       \<and> ''static inline void'' \<notin> set (drop (length (body self)) (body self'))"
proof -
  let ?name = "prefix_lc self @ ''_add_signals_for_'' @ lower (interface_name node)
                @ '' (DBusGProxy *proxy)''"
  let ?sigs = "concat (map (signal_lines ttg) (getElementsByTagName node ''signal''))"
  let ?mh = "concat (map (\<lambda>m. h_lines (method_calls (prefix_lc self) ttg cl
                                              (interface_name node) m))
               (getElementsByTagName node ''method''))"
  let ?mb = "concat (map (\<lambda>m. b_lines (method_calls (prefix_lc self) ttg cl
                                              (interface_name node) m))
               (getElementsByTagName node ''method''))"
  from do_interface_add_lines(1) [OF assms]
  have h: "header self' = header self @ [''static inline void'', ?name, ''{''] @ ?sigs
             @ [''}'', '''', ''''] @ ?mh"
    and b: "body self' = body self @ ?mb"
    by (simp_all add: interface_h_lines_def interface_b_lines_def)
  have s: "filter (\<lambda>l. l = ''static inline void'') ?sigs = []"
    using no_static_signal by (intro filter_none) auto
  have mh: "filter (\<lambda>l. l = ''static inline void'') ?mh = []"
    using no_static_h_stub by (intro filter_none) (auto simp: method_calls_def)
  have mb: "''static inline void'' \<notin> set ?mb"
    using no_static_b_stub by (auto simp: method_calls_def)
  have c: "length (filter (\<lambda>l. l = ''static inline void'')
                   (drop (length (header self)) (header self'))) = 1"
    unfolding h using s mh no_static_name [of "prefix_lc self" "lower (interface_name node)"]
    by simp
  have d: "''static inline void'' \<notin> set (drop (length (body self)) (body self'))"
    unfolding b using mb by simp
  have h': "header self' = header self
           @ [''static inline void'', ?name, ''{'']
           @ concat (map (\<lambda>signal.
                 [''  dbus_g_proxy_add_signal (proxy, '' @ [CHR 0x22]
                    @ getAttribute signal ''name'' @ [CHR 0x22] @ '','']
                 @ map (\<lambda>a. ''      '' @ gtype_of ttg a @ '','')
                     (getElementsByTagName signal ''arg'')
                 @ [''      G_TYPE_INVALID);''])
               (getElementsByTagName node ''signal''))
           @ [''}'', '''', ''''] @ ?mh"
    unfolding h signal_lines_def [abs_def] ..
  show ?thesis by (rule conjI [OF h' conjI [OF b conjI [OF c d]]])
qed

lemma do_interface_signal_node:
  "prefix_lc self = ''prefix'' \<Longrightarrow>
     do_interface type_to_gtype camelcase_to_lower signal_node self
       = Inr (add_lines signal_h [] self)"
  by (simp add: do_interface_def signal_node_def do_signal_add_def do_signal_def
      signal_calls_def emit_add_lines signal_h_def eval_simps)

lemma gen0_prefix: "prefix_lc gen0 = ''prefix''"
  by (simp add: gen0_def Generator_init_def eval_simps)

lemma main_signal_doc:
  "main cmp_by_name type_to_gtype camelcase_to_lower signal_doc ''prefix'' ''out'' Map.empty
     = Inr (add_lines (preamble_h @ signal_h) (preamble_b ''out'')
              (Generator_init signal_doc ''prefix'' ''out''),
            [''out.h'' \<mapsto> join [CHR 0x0A] (preamble_h @ signal_h),
             ''out.c'' \<mapsto> join [CHR 0x0A] (preamble_b ''out'')])"
proof -
  let ?g = "Generator_init signal_doc ''prefix'' ''out''"
  have n: "getElementsByTagName signal_doc ''node'' = [signal_node]"
    by (simp add: signal_doc_def signal_node_def)
  have d: "dom_node ?g = signal_doc" and bn: "basename ?g = ''out''"
    and hb: "header ?g = []" "body ?g = []"
    by (simp_all add: Generator_init_def)
  have p: "prefix_lc (add_lines preamble_h (preamble_b ''out'') ?g) = ''prefix''"
    by (simp add: Generator_init_def eval_simps)
  have e: "emit [H ''#include <dbus/dbus-glib.h>'',
                 H ''#include <telepathy-glib/proxy.h>'',
                 H ''#include <telepathy-glib/interfaces.h>'',
                 H '''',
                 B (''#include '' @ [CHR 0x22] @ basename ?g @ ''.h'' @ [CHR 0x22]),
                 B ''''] ?g = add_lines preamble_h (preamble_b ''out'') ?g"
    by (simp add: emit_add_lines preamble_h_def preamble_b_def bn)
  show ?thesis
    unfolding main_def Generator_call_def e
    by (simp add: Let_def d bn hb n sort_cmp_def do_interface_signal_node [OF p])
qed

text \<open>The interface with one signal: its registration function, in the header.\<close>

theorem signal_registration_block_witness:
  "do_interface type_to_gtype camelcase_to_lower signal_node gen0
     = Inr (add_lines signal_h [] gen0)
   \<and> drop (length (header gen0)) (header (add_lines signal_h [] gen0)) = signal_h
   \<and> length (filter (\<lambda>l. l = ''static inline void'') signal_h) = 1
   \<and> body (add_lines signal_h [] gen0) = body gen0"
proof -
  note h = do_interface_signal_node [OF gen0_prefix]
  have d: "drop (length (header gen0)) (header (add_lines signal_h [] gen0)) = signal_h"
    by simp
  from signal_registration_block [OF h]
  have "length (filter (\<lambda>l. l = ''static inline void'')
                   (drop (length (header gen0)) (header (add_lines signal_h [] gen0)))) = 1"
    by blast
  then have c: "length (filter (\<lambda>l. l = ''static inline void'') signal_h) = 1"
    unfolding d .
  have b: "body (add_lines signal_h [] gen0) = body gen0"
    by simp
  show ?thesis by (rule conjI [OF h conjI [OF d conjI [OF c b]]])
qed

text \<open>
  Claim C8 as stated fails in its last part. For the document with one signal the
  header has the registration function, and the body, hence the file
  \<^verbatim>\<open>out.c\<close>, has the \<^verbatim>\<open>#include\<close> line and nothing of it.
\<close>

theorem registration_in_body_counterexample:
  "''static inline void'' \<in> set (header (fst (projr
       (main cmp_by_name type_to_gtype camelcase_to_lower signal_doc ''prefix'' ''out''
          Map.empty))))
   \<and> ''static inline void'' \<notin> set (body (fst (projr
       (main cmp_by_name type_to_gtype camelcase_to_lower signal_doc ''prefix'' ''out''
          Map.empty))))
   \<and> snd (projr
       (main cmp_by_name type_to_gtype camelcase_to_lower signal_doc ''prefix'' ''out''
          Map.empty)) ''out.c''
       = Some (''#include '' @ [CHR 0x22] @ ''out.h'' @ [CHR 0x22] @ [CHR 0x0A])"
  unfolding main_signal_doc
  by (simp add: Generator_init_def preamble_h_def preamble_b_def signal_h_def)

lemma insort_cmp_by_name:
  "insort_cmp cmp_by_name x ys = insort_key interface_name x ys"
  by (induction ys) (auto simp: cmp_by_name_def Let_def)

lemma sort_cmp_by_name:
  "sort_cmp cmp_by_name xs = sort_key interface_name xs"
  unfolding sort_cmp_def sort_key_def insort_cmp_by_name [abs_def] ..

text \<open>
  Claim C2. Before anything is emitted for them, the \<^verbatim>\<open>node\<close> elements are sorted by
  the name of their interface, the name that the artifacts present: the names are in
  ascending lexicographic order of their characters, capital letters before small
  ones, and nodes of equal name keep their order (the sort is stable). The header and
  the body are the blocks of the interfaces in that order. For the interfaces Zeta,
  Alpha, Mu the order is Alpha, Mu, Zeta.
\<close>

theorem interface_ordering:
  assumes "Generator_call cmp_by_name ttg cl self fs = Inr (self', fs')"
  shows "sorted (map interface_name
                  (sort_cmp cmp_by_name (getElementsByTagName (dom_node self) ''node'')))
       \<and> (\<forall>k. filter (\<lambda>n. interface_name n = k)
                  (sort_cmp cmp_by_name (getElementsByTagName (dom_node self) ''node''))
               = filter (\<lambda>n. interface_name n = k)
                   (getElementsByTagName (dom_node self) ''node''))
       \<and> header self' = header self @ preamble_h
           @ concat (map (interface_h_lines (prefix_lc self) ttg cl)
               (sort_cmp cmp_by_name (getElementsByTagName (dom_node self) ''node'')))
       \<and> body self' = body self @ preamble_b (basename self)
           @ concat (map (interface_b_lines (prefix_lc self) ttg cl)
               (sort_cmp cmp_by_name (getElementsByTagName (dom_node self) ''node'')))"
proof -
  let ?nodes = "getElementsByTagName (dom_node self) ''node''"
  have s: "sorted (map interface_name (sort_cmp cmp_by_name ?nodes))"
    unfolding sort_cmp_by_name by (rule sorted_sort_key)
  have t: "\<forall>k. filter (\<lambda>n. interface_name n = k) (sort_cmp cmp_by_name ?nodes)
               = filter (\<lambda>n. interface_name n = k) ?nodes"
    unfolding sort_cmp_by_name by (simp add: sort_key_stable)
  from Generator_call_Inr(1) [OF assms]
  have h: "header self' = header self @ preamble_h
           @ concat (map (interface_h_lines (prefix_lc self) ttg cl) (sort_cmp cmp_by_name ?nodes))"
    and b: "body self' = body self @ preamble_b (basename self)
           @ concat (map (interface_b_lines (prefix_lc self) ttg cl) (sort_cmp cmp_by_name ?nodes))"
    by simp_all
  show ?thesis by (rule conjI [OF s conjI [OF t conjI [OF h b]]])
qed

lemma sort_zeta_alpha_mu:
  "sort_cmp cmp_by_name (getElementsByTagName zeta_alpha_mu ''node'')
     = [iface_node ''Alpha'', iface_node ''/Mu'', iface_node ''/Zeta'']"
  by (simp add: zeta_alpha_mu_def iface_node_def sort_cmp_def cmp_by_name_def interface_name_def
      remove_char_def getAttribute_def)

lemma do_interface_iface_node:
  "prefix_lc self = ''prefix'' \<Longrightarrow>
     do_interface ttg cl (iface_node n) self
       = Inr (add_lines [''static inline void'',
                ''prefix_add_signals_for_'' @ lower (remove_char (CHR ''/'') n)
                  @ '' (DBusGProxy *proxy)'',
                ''{'', ''}'', '''', ''''] [] self)"
  by (simp add: do_interface_def iface_node_def emit_add_lines getAttribute_def)

lemma Generator_call_init:
  "Generator_call cmp ttg cl (Generator_init d p bn) fs =
     (case for_each (do_interface ttg cl) (sort_cmp cmp (getElementsByTagName d ''node''))
             (add_lines preamble_h (preamble_b bn) (Generator_init d p bn)) of
        Inl e \<Rightarrow> Inl e
      | Inr s \<Rightarrow> Inr (s, fs(basename s @ ''.h'' \<mapsto> join [CHR 0x0A] (header s),
                            basename s @ ''.c'' \<mapsto> join [CHR 0x0A] (body s))))"
  by (simp add: Generator_call_def Let_def emit_add_lines preamble_h_def preamble_b_def
      Generator_init_def split: sum.splits)

lemma Generator_init_simps [simp]:
  "dom_node (Generator_init d p bn) = d"
  "header (Generator_init d p bn) = []"
  "body (Generator_init d p bn) = []"
  "prefix_lc (Generator_init d p bn) = lower p"
  "basename (Generator_init d p bn) = bn"
  by (simp_all add: Generator_init_def)

lemma lower_prefix: "lower ''prefix'' = ''prefix''"
  by (simp add: eval_simps)

lemma main_zeta_alpha_mu:
  "Generator_call cmp_by_name type_to_gtype camelcase_to_lower
       (Generator_init zeta_alpha_mu ''prefix'' ''out'') Map.empty
     = Inr (add_lines (preamble_h @ zeta_alpha_mu_h) (preamble_b ''out'')
              (Generator_init zeta_alpha_mu ''prefix'' ''out''),
            [''out.h'' \<mapsto> join [CHR 0x0A] (preamble_h @ zeta_alpha_mu_h),
             ''out.c'' \<mapsto> join [CHR 0x0A] (preamble_b ''out'')])"
  unfolding Generator_call_init sort_zeta_alpha_mu
  by (simp add: do_interface_iface_node lower_prefix zeta_alpha_mu_h_def eval_simps)

text \<open>
  The three interfaces: Alpha, Mu, Zeta in the header, although the names of the
  nodes, with their slashes, are in another order.
\<close>

theorem interface_ordering_witness:
  "Generator_call cmp_by_name type_to_gtype camelcase_to_lower
       (Generator_init zeta_alpha_mu ''prefix'' ''out'') Map.empty
     = Inr (add_lines (preamble_h @ zeta_alpha_mu_h) (preamble_b ''out'')
              (Generator_init zeta_alpha_mu ''prefix'' ''out''),
            [''out.h'' \<mapsto> join [CHR 0x0A] (preamble_h @ zeta_alpha_mu_h),
             ''out.c'' \<mapsto> join [CHR 0x0A] (preamble_b ''out'')])
   \<and> map (\<lambda>n. getAttribute n ''name'') (getElementsByTagName zeta_alpha_mu ''node'')
       = [''/Zeta'', ''Alpha'', ''/Mu'']
   \<and> map interface_name (getElementsByTagName zeta_alpha_mu ''node'')
       = [''Zeta'', ''Alpha'', ''Mu'']
   \<and> map interface_name
         (sort_cmp cmp_by_name (getElementsByTagName zeta_alpha_mu ''node''))
       = [''Alpha'', ''Mu'', ''Zeta'']
   \<and> sorted [''Alpha'', ''Mu'', ''Zeta'']"
proof -
  note h = main_zeta_alpha_mu
  have 0: "map (\<lambda>n. getAttribute n ''name'') (getElementsByTagName zeta_alpha_mu ''node'')
       = [''/Zeta'', ''Alpha'', ''/Mu'']"
    by (simp add: zeta_alpha_mu_def iface_node_def getAttribute_def)
  have 1: "map interface_name (getElementsByTagName zeta_alpha_mu ''node'')
       = [''Zeta'', ''Alpha'', ''Mu'']"
    by (simp add: zeta_alpha_mu_def iface_node_def interface_name_def remove_char_def
        getAttribute_def)
  have 2: "map interface_name
         (sort_cmp cmp_by_name (getElementsByTagName zeta_alpha_mu ''node''))
       = [''Alpha'', ''Mu'', ''Zeta'']"
    unfolding sort_zeta_alpha_mu
    by (simp add: iface_node_def interface_name_def remove_char_def getAttribute_def)
  from interface_ordering [OF h, THEN conjunct1]
  have 3: "sorted [''Alpha'', ''Mu'', ''Zeta'']"
    unfolding Generator_init_simps 2 .
  show ?thesis by (rule conjI [OF h conjI [OF 0 conjI [OF 1 conjI [OF 2 3]]]])
qed


lemma main_cases:
  "main cmp ttg cl d p bn fs =
     (case for_each (do_interface ttg cl) (sort_cmp cmp (getElementsByTagName d ''node''))
             (add_lines preamble_h (preamble_b bn) (Generator_init d p bn)) of
        Inl e \<Rightarrow> Inl e
      | Inr s \<Rightarrow> Inr (s, fs(bn @ ''.h'' \<mapsto> join [CHR 0x0A] (header s),
                            bn @ ''.c'' \<mapsto> join [CHR 0x0A] (body s))))"
proof (cases "for_each (do_interface ttg cl) (sort_cmp cmp (getElementsByTagName d ''node''))
             (add_lines preamble_h (preamble_b bn) (Generator_init d p bn))")
  case (Inl e)
  then show ?thesis by (simp add: main_def Generator_call_init)
next
  case (Inr s)
  from for_each_do_interface [OF Inr] have "basename s = bn" by simp
  with Inr show ?thesis by (simp add: main_def Generator_call_init)
qed

text \<open>
  Claim C1. The generator is deterministic: for a given document, prefix and basename
  (and given helpers), the header and body artifacts do not depend on anything else,
  in particular not on what the file system held before the run; and a second run,
  on the file system that the first run left, ends in the same state and leaves the
  same two files.
\<close>

theorem determinism:
  "artifacts bn (main cmp ttg cl d prefix bn fs1) = artifacts bn (main cmp ttg cl d prefix bn fs2)
   \<and> (\<forall>g fs'. main cmp ttg cl d prefix bn fs1 = Inr (g, fs') \<longrightarrow>
         main cmp ttg cl d prefix bn fs' = Inr (g, fs')
         \<and> fs' (bn @ ''.h'') = Some (join [CHR 0x0A] (header g))
         \<and> fs' (bn @ ''.c'') = Some (join [CHR 0x0A] (body g)))"
proof -
  let ?r = "for_each (do_interface ttg cl) (sort_cmp cmp (getElementsByTagName d ''node''))
             (add_lines preamble_h (preamble_b bn) (Generator_init d prefix bn))"
  have 1: "artifacts bn (main cmp ttg cl d prefix bn fs1)
      = artifacts bn (main cmp ttg cl d prefix bn fs2)"
    by (cases ?r) (simp_all add: main_cases artifacts_def)
  have 2: "main cmp ttg cl d prefix bn fs' = Inr (g, fs')
         \<and> fs' (bn @ ''.h'') = Some (join [CHR 0x0A] (header g))
         \<and> fs' (bn @ ''.c'') = Some (join [CHR 0x0A] (body g))"
    if m: "main cmp ttg cl d prefix bn fs1 = Inr (g, fs')" for g fs'
  proof -
    from m obtain s where r: "?r = Inr s"
      by (cases ?r) (simp_all add: main_cases)
    with m have g: "g = s"
      and f: "fs' = fs1(bn @ ''.h'' \<mapsto> join [CHR 0x0A] (header s),
                        bn @ ''.c'' \<mapsto> join [CHR 0x0A] (body s))"
      by (auto simp: main_cases)
    have "main cmp ttg cl d prefix bn fs' = Inr (g, fs')"
      unfolding main_cases r g f by simp
    with g f show ?thesis by simp
  qed
  from 1 2 show ?thesis by blast
qed

text \<open>The document with one signal: the second run changes nothing.\<close>

theorem determinism_witness:
  "main cmp_by_name type_to_gtype camelcase_to_lower signal_doc ''prefix'' ''out'' Map.empty
     = Inr (add_lines (preamble_h @ signal_h) (preamble_b ''out'')
              (Generator_init signal_doc ''prefix'' ''out''),
            [''out.h'' \<mapsto> join [CHR 0x0A] (preamble_h @ signal_h),
             ''out.c'' \<mapsto> join [CHR 0x0A] (preamble_b ''out'')])
   \<and> main cmp_by_name type_to_gtype camelcase_to_lower signal_doc ''prefix'' ''out''
         [''out.h'' \<mapsto> join [CHR 0x0A] (preamble_h @ signal_h),
          ''out.c'' \<mapsto> join [CHR 0x0A] (preamble_b ''out'')]
     = Inr (add_lines (preamble_h @ signal_h) (preamble_b ''out'')
              (Generator_init signal_doc ''prefix'' ''out''),
            [''out.h'' \<mapsto> join [CHR 0x0A] (preamble_h @ signal_h),
             ''out.c'' \<mapsto> join [CHR 0x0A] (preamble_b ''out'')])"
proof -
  note h = main_signal_doc
  from determinism [THEN conjunct2, rule_format, OF h, THEN conjunct1]
  have "main cmp_by_name type_to_gtype camelcase_to_lower signal_doc ''prefix'' ''out''
         [''out.h'' \<mapsto> join [CHR 0x0A] (preamble_h @ signal_h),
          ''out.c'' \<mapsto> join [CHR 0x0A] (preamble_b ''out'')]
     = Inr (add_lines (preamble_h @ signal_h) (preamble_b ''out'')
              (Generator_init signal_doc ''prefix'' ''out''),
            [''out.h'' \<mapsto> join [CHR 0x0A] (preamble_h @ signal_h),
             ''out.c'' \<mapsto> join [CHR 0x0A] (preamble_b ''out'')])" .
  with h show ?thesis by (rule conjI)
qed

lemma main_example_doc:
  assumes "ttg ''i'' = Inr (ci, gi, mi, pi)"
    and "ttg ''s'' = Inr (cs, gs, ms, ps)"
    and "cl ''DoThing'' = Inr m"
  shows "main cmp ttg cl example_doc ''prefix'' bn fs =
     Inr (emit (stub_calls ''prefix'' ''example'' ''DoThing'' m
                 [(''in_value'', (ci, gi, mi, pi), '''')] [(''out0'', (cs, gs, ms, ps), '''')])
              (add_lines [''static inline void'',
                 ''prefix_add_signals_for_example (DBusGProxy *proxy)'', ''{'', ''}'', '''', '''']
                 [] (add_lines preamble_h (preamble_b bn)
                       (Generator_init example_doc ''prefix'' bn))),
          fs(bn @ ''.h'' \<mapsto> join [CHR 0x0A] (header
               (emit (stub_calls ''prefix'' ''example'' ''DoThing'' m
                 [(''in_value'', (ci, gi, mi, pi), '''')] [(''out0'', (cs, gs, ms, ps), '''')])
              (add_lines [''static inline void'',
                 ''prefix_add_signals_for_example (DBusGProxy *proxy)'', ''{'', ''}'', '''', '''']
                 [] (add_lines preamble_h (preamble_b bn)
                       (Generator_init example_doc ''prefix'' bn))))),
             bn @ ''.c'' \<mapsto> join [CHR 0x0A] (body
               (emit (stub_calls ''prefix'' ''example'' ''DoThing'' m
                 [(''in_value'', (ci, gi, mi, pi), '''')] [(''out0'', (cs, gs, ms, ps), '''')])
              (add_lines [''static inline void'',
                 ''prefix_add_signals_for_example (DBusGProxy *proxy)'', ''{'', ''}'', '''', '''']
                 [] (add_lines preamble_h (preamble_b bn)
                       (Generator_init example_doc ''prefix'' bn)))))))"
proof -
  let ?start = "add_lines preamble_h (preamble_b bn) (Generator_init example_doc ''prefix'' bn)"
  let ?node = "Element ''node'' [(''name'', ''Example'')]
        [Element ''interface'' [(''name'', ''Example'')] [do_thing]]"
  have n: "sort_cmp cmp (getElementsByTagName example_doc ''node'') = [?node]"
    by (simp add: example_doc_def sort_cmp_def do_thing_def arg_elem_def)
  have a: "arg_loop ttg (getElementsByTagName do_thing ''arg'') (0, [], [])
      = Inr (1, [(''in_value'', (ci, gi, mi, pi), '''')], [(''out0'', (cs, gs, ms, ps), '''')])"
    using assms(1,2) by (simp add: do_thing_def arg_elem_def getAttribute_def str_nat_0)
  have c: "cl (getAttribute do_thing ''name'') = Inr m"
    using assms(3) by (simp add: do_thing_def getAttribute_def)
  have p: "prefix_lc self = ''prefix'' \<Longrightarrow>
      do_method ttg cl ''Example'' do_thing self
        = Inr (emit (stub_calls ''prefix'' ''example'' ''DoThing'' m
                 [(''in_value'', (ci, gi, mi, pi), '''')] [(''out0'', (cs, gs, ms, ps), '''')])
                 self)" for self
    using a c by (simp add: do_method_def eval_simps) (simp add: do_thing_def getAttribute_def)
  have i: "getElementsByTagName ?node ''interface'' = [Element ''interface'' [(''name'', ''Example'')] [do_thing]]"
    and s: "getElementsByTagName ?node ''signal'' = []"
    and ms: "getElementsByTagName ?node ''method'' = [do_thing]"
    by (simp_all add: do_thing_def arg_elem_def)
  have di: "do_interface ttg cl ?node ?start
      = Inr (emit (stub_calls ''prefix'' ''example'' ''DoThing'' m
                 [(''in_value'', (ci, gi, mi, pi), '''')] [(''out0'', (cs, gs, ms, ps), '''')])
              (add_lines [''static inline void'',
                 ''prefix_add_signals_for_example (DBusGProxy *proxy)'', ''{'', ''}'', '''', '''']
                 [] ?start))"
    unfolding do_interface_def i s ms
    by (simp add: Let_def emit_add_lines p lower_prefix getAttribute_def eval_simps)
  let ?g = "emit (stub_calls ''prefix'' ''example'' ''DoThing'' m
                 [(''in_value'', (ci, gi, mi, pi), '''')] [(''out0'', (cs, gs, ms, ps), '''')])
              (add_lines [''static inline void'',
                 ''prefix_add_signals_for_example (DBusGProxy *proxy)'', ''{'', ''}'', '''', '''']
                 [] ?start)"
  let ?fs = "fs(bn @ ''.h'' \<mapsto> join [CHR 0x0A] (header ?g),
                bn @ ''.c'' \<mapsto> join [CHR 0x0A] (body ?g))"
  have r: "for_each (do_interface ttg cl) [?node] ?start = Inr ?g"
    by (simp add: di)
  show ?thesis
    unfolding main_cases n r by simp
qed

text \<open>
  Claim C4, as amended. For the document with the one interface Example and its one
  method DoThing, with the in-argument \<^verbatim>\<open>value\<close> of the 32-bit integer type and an
  unnamed out-argument of the string type, the header has the registration helper
  \<^verbatim>\<open>prefix_add_signals_for_example\<close> and the declaration of
  \<^verbatim>\<open>prefix_example_block_on_\<close> followed by what \<^verbatim>\<open>camelcase_to_lower\<close> returns for
  \<^verbatim>\<open>DoThing\<close>; its parameters are the proxy, then \<^verbatim>\<open>in_value\<close> with the C type of the
  integer, then \<^verbatim>\<open>out0\<close> with the C type of the string and a \<^verbatim>\<open>*\<close>, then the error.
  The payload of the call in the body is \<^verbatim>\<open>in_value\<close>, the sentinel, \<^verbatim>\<open>out0\<close>, the
  sentinel.
\<close>

theorem end_to_end:
  assumes "ttg ''i'' = Inr (ci, gi, mi, pi)"
    and "ttg ''s'' = Inr (cs, gs, ms, ps)"
    and "cl ''DoThing'' = Inr m"
  shows "\<exists>g fs'.
     main cmp ttg cl example_doc ''prefix'' bn fs = Inr (g, fs') \<and>
     header g =
       [''#include <dbus/dbus-glib.h>'',
        ''#include <telepathy-glib/proxy.h>'',
        ''#include <telepathy-glib/interfaces.h>'',
        '''',
        ''static inline void'',
        ''prefix_add_signals_for_example (DBusGProxy *proxy)'',
        ''{'',
        ''}'',
        '''',
        '''',
        ''gboolean prefix_example_block_on_'' @ m @ '' (gpointer *proxy,'',
        ''    '' @ (if pi then ''const '' else '''') @ ci @ ''in_value,'',
        ''    '' @ cs @ ''*out0,'',
        ''    GError **error);'',
        '''',
        ''''] \<and>
     body g =
       [''#include '' @ [CHR 0x22] @ bn @ ''.h'' @ [CHR 0x22],
        '''',
        ''gboolean'' @ [CHR 0x0A] @ ''prefix_example_block_on_'' @ m @ '' (gpointer *proxy,'',
        ''    '' @ (if pi then ''const '' else '''') @ ci @ ''in_value,'',
        ''    '' @ cs @ ''*out0,'',
        ''    GError **error)'',
        ''{'',
        ''  DBusGProxy *iface = tp_proxy_get_interface ('',
        ''      TP_PROXY (proxy),'',
        ''      TP_IFACE_QUARK_EXAMPLE,'',
        ''      error);'',
        '''',
        ''  if (iface == NULL)'',
        ''    return FALSE;'',
        '''',
        ''  return dbus_g_proxy_call (iface, '' @ [CHR 0x22] @ ''DoThing'' @ [CHR 0x22]
           @ '', error,'',
        ''      /* in arguments */'',
        ''      '' @ gi @ '', in_value,'',
        ''      G_TYPE_INVALID,'',
        ''      /* out arguments */'',
        ''      '' @ gs @ '', out0,'',
        ''      G_TYPE_INVALID);'',
        ''}'',
        '''',
        ''''] \<and>
     fs' (bn @ ''.h'') = Some (join [CHR 0x0A] (header g)) \<and>
     fs' (bn @ ''.c'') = Some (join [CHR 0x0A] (body g))"
proof -
  let ?g = "emit (stub_calls ''prefix'' ''example'' ''DoThing'' m
                 [(''in_value'', (ci, gi, mi, pi), '''')] [(''out0'', (cs, gs, ms, ps), '''')])
              (add_lines [''static inline void'',
                 ''prefix_add_signals_for_example (DBusGProxy *proxy)'', ''{'', ''}'', '''', '''']
                 [] (add_lines preamble_h (preamble_b bn)
                       (Generator_init example_doc ''prefix'' bn)))"
  let ?fs = "fs(bn @ ''.h'' \<mapsto> join [CHR 0x0A] (header ?g),
                bn @ ''.c'' \<mapsto> join [CHR 0x0A] (body ?g))"
  have 1: "main cmp ttg cl example_doc ''prefix'' bn fs = Inr (?g, ?fs)"
    using assms by (rule main_example_doc)
  have 2: "header ?g =
       [''#include <dbus/dbus-glib.h>'',
        ''#include <telepathy-glib/proxy.h>'',
        ''#include <telepathy-glib/interfaces.h>'',
        '''',
        ''static inline void'',
        ''prefix_add_signals_for_example (DBusGProxy *proxy)'',
        ''{'',
        ''}'',
        '''',
        '''',
        ''gboolean prefix_example_block_on_'' @ m @ '' (gpointer *proxy,'',
        ''    '' @ (if pi then ''const '' else '''') @ ci @ ''in_value,'',
        ''    '' @ cs @ ''*out0,'',
        ''    GError **error);'',
        '''',
        '''']"
    by (simp add: emit_add_lines h_lines_stub in_param_def out_param_def preamble_h_def)
  have 3: "body ?g =
       [''#include '' @ [CHR 0x22] @ bn @ ''.h'' @ [CHR 0x22],
        '''',
        ''gboolean'' @ [CHR 0x0A] @ ''prefix_example_block_on_'' @ m @ '' (gpointer *proxy,'',
        ''    '' @ (if pi then ''const '' else '''') @ ci @ ''in_value,'',
        ''    '' @ cs @ ''*out0,'',
        ''    GError **error)'',
        ''{'',
        ''  DBusGProxy *iface = tp_proxy_get_interface ('',
        ''      TP_PROXY (proxy),'',
        ''      TP_IFACE_QUARK_EXAMPLE,'',
        ''      error);'',
        '''',
        ''  if (iface == NULL)'',
        ''    return FALSE;'',
        '''',
        ''  return dbus_g_proxy_call (iface, '' @ [CHR 0x22] @ ''DoThing'' @ [CHR 0x22]
           @ '', error,'',
        ''      /* in arguments */'',
        ''      '' @ gi @ '', in_value,'',
        ''      G_TYPE_INVALID,'',
        ''      /* out arguments */'',
        ''      '' @ gs @ '', out0,'',
        ''      G_TYPE_INVALID);'',
        ''}'',
        '''',
        '''']"
    by (simp add: emit_add_lines b_lines_stub in_param_def out_param_def call_arg_def
        preamble_b_def eval_simps)
  have 4: "?fs (bn @ ''.h'') = Some (join [CHR 0x0A] (header ?g))"
    and 5: "?fs (bn @ ''.c'') = Some (join [CHR 0x0A] (body ?g))"
    by simp_all
  show ?thesis
    apply (rule exI [of _ ?g])
    apply (rule exI [of _ ?fs])
    using 1 2 3 4 5 by blast
qed

lemma type_to_gtype_i: "type_to_gtype ''i'' = Inr (''int32 '', ''G_TYPE_INT'', ''INT'', False)"
  by (simp add: type_to_gtype_def)

lemma type_to_gtype_s: "type_to_gtype ''s'' = Inr (''char *'', ''G_TYPE_STRING'', ''STRING'', True)"
  by (simp add: type_to_gtype_def)

lemma camelcase_to_lower_DoThing: "camelcase_to_lower ''DoThing'' = Inr ''do_thing''"
  by (simp add: camelcase_to_lower_def char_lower_def)

text \<open>The scenario with the helpers modelled from the specification.\<close>

theorem end_to_end_witness:
  "type_to_gtype ''i'' = Inr (''int32 '', ''G_TYPE_INT'', ''INT'', False)
   \<and> type_to_gtype ''s'' = Inr (''char *'', ''G_TYPE_STRING'', ''STRING'', True)
   \<and> camelcase_to_lower ''DoThing'' = Inr ''do_thing''
   \<and> header (fst (projr (main cmp_by_name type_to_gtype camelcase_to_lower example_doc
         ''prefix'' ''out'' Map.empty)))
       = [''#include <dbus/dbus-glib.h>'',
          ''#include <telepathy-glib/proxy.h>'',
          ''#include <telepathy-glib/interfaces.h>'',
          '''',
          ''static inline void'',
          ''prefix_add_signals_for_example (DBusGProxy *proxy)'',
          ''{'',
          ''}'',
          '''',
          '''',
          ''gboolean prefix_example_block_on_do_thing (gpointer *proxy,'',
          ''    int32 in_value,'',
          ''    char **out0,'',
          ''    GError **error);'',
          '''',
          '''']"
proof -
  note h1 = type_to_gtype_i and h2 = type_to_gtype_s and h3 = camelcase_to_lower_DoThing
  from end_to_end [where ttg = type_to_gtype and cl = camelcase_to_lower
      and ci = "''int32 ''" and gi = "''G_TYPE_INT''" and mi = "''INT''" and pi = False
      and cs = "''char *''" and gs = "''G_TYPE_STRING''" and ms = "''STRING''" and ps = True
      and m = "''do_thing''" and cmp = cmp_by_name and bn = "''out''" and fs = Map.empty,
      OF type_to_gtype_i type_to_gtype_s camelcase_to_lower_DoThing]
  obtain g fs' where
    m: "main cmp_by_name type_to_gtype camelcase_to_lower example_doc ''prefix'' ''out'' Map.empty
          = Inr (g, fs')"
    and h: "header g =
       [''#include <dbus/dbus-glib.h>'',
        ''#include <telepathy-glib/proxy.h>'',
        ''#include <telepathy-glib/interfaces.h>'',
        '''',
        ''static inline void'',
        ''prefix_add_signals_for_example (DBusGProxy *proxy)'',
        ''{'',
        ''}'',
        '''',
        '''',
        ''gboolean prefix_example_block_on_'' @ ''do_thing'' @ '' (gpointer *proxy,'',
        ''    '' @ (if False then ''const '' else '''') @ ''int32 '' @ ''in_value,'',
        ''    '' @ ''char *'' @ ''*out0,'',
        ''    GError **error);'',
        '''',
        '''']"
    by blast
  have 4: "header (fst (projr (main cmp_by_name type_to_gtype camelcase_to_lower example_doc
         ''prefix'' ''out'' Map.empty)))
       = [''#include <dbus/dbus-glib.h>'',
          ''#include <telepathy-glib/proxy.h>'',
          ''#include <telepathy-glib/interfaces.h>'',
          '''',
          ''static inline void'',
          ''prefix_add_signals_for_example (DBusGProxy *proxy)'',
          ''{'',
          ''}'',
          '''',
          '''',
          ''gboolean prefix_example_block_on_do_thing (gpointer *proxy,'',
          ''    int32 in_value,'',
          ''    char **out0,'',
          ''    GError **error);'',
          '''',
          '''']"
    unfolding m using h by simp
  show ?thesis by (rule conjI [OF h1 conjI [OF h2 conjI [OF h3 4]]])
qed

text \<open>
  Claim C4 as stated fails: the declaration is not
  \<^verbatim>\<open>prefix_example_block_on_dothing(int32 in_value, char **out0, GError **error)\<close>.
  Its first parameter is the proxy, whatever \<^verbatim>\<open>camelcase_to_lower\<close> returns: the
  declaration (lines 10 to 13 of the header) differs from the claimed one, up to
  blanks, with the helper modelled from the specification, which gives
  \<^verbatim>\<open>do_thing\<close>, and also with a helper that only puts the name in lower case and gives
  \<^verbatim>\<open>dothing\<close>.
\<close>

theorem end_to_end_counterexample:
  "take 4 (drop 10 (header (fst (projr
       (main cmp_by_name type_to_gtype camelcase_to_lower example_doc ''prefix'' ''out''
          Map.empty)))))
     = [''gboolean prefix_example_block_on_do_thing (gpointer *proxy,'',
        ''    int32 in_value,'',
        ''    char **out0,'',
        ''    GError **error);'']
   \<and> remove_char (CHR '' '') (concat (take 4 (drop 10 (header (fst (projr
       (main cmp_by_name type_to_gtype camelcase_to_lower example_doc ''prefix'' ''out''
          Map.empty)))))))
     \<noteq> remove_char (CHR '' '')
         ''gboolean prefix_example_block_on_dothing(int32 in_value, char **out0, GError **error);''
   \<and> take 4 (drop 10 (header (fst (projr
       (main cmp_by_name type_to_gtype (\<lambda>s. Inr (lower s)) example_doc ''prefix'' ''out''
          Map.empty)))))
     = [''gboolean prefix_example_block_on_dothing (gpointer *proxy,'',
        ''    int32 in_value,'',
        ''    char **out0,'',
        ''    GError **error);'']
   \<and> remove_char (CHR '' '') (concat (take 4 (drop 10 (header (fst (projr
       (main cmp_by_name type_to_gtype (\<lambda>s. Inr (lower s)) example_doc ''prefix'' ''out''
          Map.empty)))))))
     \<noteq> remove_char (CHR '' '')
         ''gboolean prefix_example_block_on_dothing(int32 in_value, char **out0, GError **error);''"
proof -
  have l: "(\<lambda>s. Inr (lower s)) ''DoThing'' = (Inr ''dothing'' :: error + string)"
    by (simp add: eval_simps)
  note a = main_example_doc [where ttg = type_to_gtype and cl = camelcase_to_lower
      and ci = "''int32 ''" and gi = "''G_TYPE_INT''" and mi = "''INT''" and pi = False
      and cs = "''char *''" and gs = "''G_TYPE_STRING''" and ms = "''STRING''" and ps = True
      and m = "''do_thing''" and cmp = cmp_by_name and bn = "''out''" and fs = Map.empty,
      OF type_to_gtype_i type_to_gtype_s camelcase_to_lower_DoThing]
  note b = main_example_doc [where ttg = type_to_gtype and cl = "\<lambda>s. Inr (lower s)"
      and ci = "''int32 ''" and gi = "''G_TYPE_INT''" and mi = "''INT''" and pi = False
      and cs = "''char *''" and gs = "''G_TYPE_STRING''" and ms = "''STRING''" and ps = True
      and m = "''dothing''" and cmp = cmp_by_name and bn = "''out''" and fs = Map.empty,
      OF type_to_gtype_i type_to_gtype_s l]
  have 1: "take 4 (drop 10 (header (fst (projr
       (main cmp_by_name type_to_gtype camelcase_to_lower example_doc ''prefix'' ''out''
          Map.empty)))))
     = [''gboolean prefix_example_block_on_do_thing (gpointer *proxy,'',
        ''    int32 in_value,'',
        ''    char **out0,'',
        ''    GError **error);'']"
    unfolding a
    by (simp add: emit_add_lines h_lines_stub in_param_def out_param_def preamble_h_def)
  have 2: "take 4 (drop 10 (header (fst (projr
       (main cmp_by_name type_to_gtype (\<lambda>s. Inr (lower s)) example_doc ''prefix'' ''out''
          Map.empty)))))
     = [''gboolean prefix_example_block_on_dothing (gpointer *proxy,'',
        ''    int32 in_value,'',
        ''    char **out0,'',
        ''    GError **error);'']"
    unfolding b
    by (simp add: emit_add_lines h_lines_stub in_param_def out_param_def preamble_h_def)
  have 3: "remove_char (CHR '' '') (concat (take 4 (drop 10 (header (fst (projr
       (main cmp_by_name type_to_gtype camelcase_to_lower example_doc ''prefix'' ''out''
          Map.empty)))))))
     \<noteq> remove_char (CHR '' '')
         ''gboolean prefix_example_block_on_dothing(int32 in_value, char **out0, GError **error);''"
    unfolding 1 by (simp add: remove_char_def)
  have 4: "remove_char (CHR '' '') (concat (take 4 (drop 10 (header (fst (projr
       (main cmp_by_name type_to_gtype (\<lambda>s. Inr (lower s)) example_doc ''prefix'' ''out''
          Map.empty)))))))
     \<noteq> remove_char (CHR '' '')
         ''gboolean prefix_example_block_on_dothing(int32 in_value, char **out0, GError **error);''"
    unfolding 2 by (simp add: remove_char_def)
  show ?thesis by (rule conjI [OF 1 conjI [OF 3 conjI [OF 2 4]]])
qed

end
